theory Spec2Isabelle
  imports Main "HOL-Library.Sublist"
begin

section \<open>Python text\<close>

text \<open>
  The script \<^verbatim>\<open>.github/codex-refactor.py\<close> works on Python \<^verbatim>\<open>str\<close> values: sequences
  of Unicode code points.  A text is modelled as the list of its code points, so that
  \<open>length\<close>, \<open>take\<close> and \<open>drop\<close> count what Python's \<^verbatim>\<open>len\<close> and slices count.
  \<open>str\<close> turns an ASCII literal into such a list; code points outside printable ASCII
  (and the two quote characters) are written as numbers.  The library functions below
  follow CPython 3.11.
\<close>

type_synonym pystr = "nat list"

definition str :: "string \<Rightarrow> pystr" where
  "str s = map of_char s"

text \<open>\<^verbatim>\<open>str.isspace\<close> for one code point: the characters \<^verbatim>\<open>str.strip()\<close> removes.\<close>

definition isspace :: "nat \<Rightarrow> bool" where
  "isspace c = (c \<in> set [9, 10, 11, 12, 13, 28, 29, 30, 31, 32, 133, 160, 5760,
     8192, 8193, 8194, 8195, 8196, 8197, 8198, 8199, 8200, 8201, 8202,
     8232, 8233, 8239, 8287, 12288])"

definition lstrip :: "pystr \<Rightarrow> pystr" where
  "lstrip s = dropWhile isspace s"

definition rstrip :: "pystr \<Rightarrow> pystr" where
  "rstrip s = rev (dropWhile isspace (rev s))"

definition strip :: "pystr \<Rightarrow> pystr" where
  "strip s = rstrip (lstrip s)"

text \<open>\<^verbatim>\<open>s.startswith(p)\<close> and \<^verbatim>\<open>sub in s\<close>.\<close>

definition startswith :: "pystr \<Rightarrow> pystr \<Rightarrow> bool" where
  "startswith s p = (take (length p) s = p)"

fun contains :: "pystr \<Rightarrow> pystr \<Rightarrow> bool" where
  "contains sub [] = (sub = [])"
| "contains sub (c # cs) = (startswith (c # cs) sub \<or> contains sub cs)"

text \<open>
  A slice \<^verbatim>\<open>xs[:n]\<close> for a Python integer \<open>n\<close>: a negative \<open>n\<close> counts from the end.
\<close>

definition slice_to :: "int \<Rightarrow> 'a list \<Rightarrow> 'a list" where
  "slice_to n xs = (if 0 \<le> n then take (nat n) xs else take (nat (int (length xs) + n)) xs)"

text \<open>\<^verbatim>\<open>sep.join(parts)\<close>.\<close>

fun join :: "pystr \<Rightarrow> pystr list \<Rightarrow> pystr" where
  "join sep [] = []"
| "join sep [x] = x"
| "join sep (x # y # ys) = x @ sep @ join sep (y # ys)"

text \<open>\<^verbatim>\<open>s.split(sep)\<close> for a separator of one character.\<close>

fun split_from :: "nat \<Rightarrow> pystr \<Rightarrow> pystr \<Rightarrow> pystr list" where
  "split_from sep cur [] = [cur]"
| "split_from sep cur (c # cs) =
     (if c = sep then cur # split_from sep [] cs else split_from sep (cur @ [c]) cs)"

definition split_on :: "nat \<Rightarrow> pystr \<Rightarrow> pystr list" where
  "split_on sep s = split_from sep [] s"

text \<open>
  \<^verbatim>\<open>s.splitlines()\<close>: a line ends at any of the line boundaries of \<^verbatim>\<open>str.splitlines\<close>,
  a carriage return followed by a line feed is one boundary, and no empty line is added
  after a final boundary.
\<close>

definition linebreak :: "nat \<Rightarrow> bool" where
  "linebreak c = (c \<in> set [10, 11, 12, 13, 28, 29, 30, 133, 8232, 8233])"

fun splitlines_from :: "pystr \<Rightarrow> pystr \<Rightarrow> pystr list" where
  "splitlines_from cur [] = (if cur = [] then [] else [cur])"
| "splitlines_from cur [c] = (if linebreak c then [cur] else [cur @ [c]])"
| "splitlines_from cur (c # d # cs) =
     (if c = 13 \<and> d = 10 then cur # splitlines_from [] cs
      else if linebreak c then cur # splitlines_from [] (d # cs)
      else splitlines_from (cur @ [c]) (d # cs))"

definition splitlines :: "pystr \<Rightarrow> pystr list" where
  "splitlines s = splitlines_from [] s"

text \<open>
  \<^verbatim>\<open>s.lower()\<close>.  ASCII capitals move to their small letters.  Outside ASCII only two
  code points have a lowercase form that contains an ASCII character: U+0130 (to
  \<^verbatim>\<open>i\<close> and U+0307) and U+212A, the Kelvin sign (to \<^verbatim>\<open>k\<close>).  Every other code point
  outside ASCII is sent by the Unicode tables to code points outside ASCII again; it is
  left as it is here, which changes no comparison with an ASCII text.
\<close>

definition lower_cp :: "nat \<Rightarrow> pystr" where
  "lower_cp c =
     (if 65 \<le> c \<and> c \<le> 90 then [c + 32]
      else if c = 304 then [105, 775]
      else if c = 8490 then [107]
      else [c])"

definition lower :: "pystr \<Rightarrow> pystr" where
  "lower s = concat (map lower_cp s)"

text \<open>\<^verbatim>\<open>s.rfind(c)\<close> for one character: the last index of \<open>c\<close>, or \<open>-1\<close>.\<close>

fun rfind_from :: "nat \<Rightarrow> int \<Rightarrow> nat \<Rightarrow> pystr \<Rightarrow> int" where
  "rfind_from i found c [] = found"
| "rfind_from i found c (x # xs) = rfind_from (Suc i) (if x = c then int i else found) c xs"

definition rfind :: "pystr \<Rightarrow> nat \<Rightarrow> int" where
  "rfind s c = rfind_from 0 (-1) c s"

subsection \<open>pathlib\<close>

text \<open>
  \<^verbatim>\<open>pathlib.Path(path).name\<close> on a POSIX system: the path is cut at every \<^verbatim>\<open>/\<close>, empty
  components and \<^verbatim>\<open>.\<close> components are dropped, and the name is the last component left
  (the empty text when none is left).  \<^verbatim>\<open>suffix\<close> is the part of the name from its last
  dot on, when that dot is neither the first nor the last character of the name.
\<close>

definition path_parts :: "pystr \<Rightarrow> pystr list" where
  "path_parts path = filter (\<lambda>x. x \<noteq> [] \<and> x \<noteq> str ''.'') (split_on 47 path)"

definition path_name :: "pystr \<Rightarrow> pystr" where
  "path_name path = (case path_parts path of [] \<Rightarrow> [] | p # ps \<Rightarrow> last (p # ps))"

definition path_suffix :: "pystr \<Rightarrow> pystr" where
  "path_suffix path =
     (let name = path_name path; i = rfind name 46
      in if 0 < i \<and> i < int (length name) - 1 then drop (nat i) name else [])"

subsection \<open>shlex and textwrap\<close>

text \<open>
  \<^verbatim>\<open>shlex.quote\<close>: the empty text becomes two single quotes; a text of letters, digits and
  \<^verbatim>\<open>_@%+=:,./-\<close> only is returned as it is; any other text is put between single quotes,
  each single quote of it (code point 39) replaced by the five characters
  quote, double quote, quote, double quote, quote.
\<close>

definition safe_char :: "nat \<Rightarrow> bool" where
  "safe_char c =
     ((48 \<le> c \<and> c \<le> 57) \<or> (65 \<le> c \<and> c \<le> 90) \<or> (97 \<le> c \<and> c \<le> 122) \<or> c = 95 \<or>
      c \<in> set (str ''@%+=:,./-''))"

definition quote_char :: "nat \<Rightarrow> pystr" where
  "quote_char c = (if c = 39 then [39, 34, 39, 34, 39] else [c])"

definition quote :: "pystr \<Rightarrow> pystr" where
  "quote s =
     (if s = [] then [39, 39]
      else if list_all safe_char s then s
      else [39] @ concat (map quote_char s) @ [39])"

text \<open>
  \<^verbatim>\<open>textwrap.dedent\<close>: lines are cut at line feeds; a line of blanks and tabs only is
  emptied; the margin is the longest run of blanks and tabs that starts every line that
  is left non-empty; the margin is removed from every line that starts with it.
\<close>

definition blank_or_tab :: "nat \<Rightarrow> bool" where
  "blank_or_tab c = (c = 32 \<or> c = 9)"

definition common_margin :: "pystr \<Rightarrow> pystr \<Rightarrow> pystr" where
  "common_margin margin indent =
     (if startswith indent margin then margin
      else if startswith margin indent then indent
      else map fst (takeWhile (\<lambda>(x, y). x = y) (zip margin indent)))"

definition dedent :: "pystr \<Rightarrow> pystr" where
  "dedent text =
     (let lines = map (\<lambda>l. if list_all blank_or_tab l then [] else l) (split_on 10 text);
          indents = map (takeWhile blank_or_tab) (filter (\<lambda>l. l \<noteq> []) lines)
      in case indents of
           [] \<Rightarrow> join [10] lines
         | i # rest \<Rightarrow>
             (let margin = foldl common_margin i rest
              in if margin = [] then join [10] lines
                 else join [10]
                   (map (\<lambda>l. if startswith l margin then drop (length margin) l else l) lines)))"

section \<open>The file selector's test\<close>

definition incl_ext :: "pystr list" where
  "incl_ext =
     [str ''.js'', str ''.ts'', str ''.tsx'', str ''.py'', str ''.rb'', str ''.go'',
      str ''.java'', str ''.cs'', str ''.cpp'', str ''.c'', str ''.h'', str ''.hpp'',
      str ''.rs'', str ''.swift'', str ''.php'', str ''.sh'', str ''.yml'', str ''.yaml'',
      str ''.json'', str ''.md'', str ''.html'', str ''.css'']"

definition should_include_file :: "pystr \<Rightarrow> bool" where
  "should_include_file path =
     (if lower (path_suffix path) \<in> set incl_ext \<and>
         \<not> contains (str ''node_modules/'') path \<and>
         \<not> contains (str ''.git/'') path \<and>
         \<not> contains (str ''vendor/'') path
      then True else False)"

section \<open>The process and its environment\<close>

text \<open>
  Everything the script does to the outside is an event of its trace, recorded with the
  answer it got.  A run ends by returning from \<^verbatim>\<open>main\<close>, by \<^verbatim>\<open>sys.exit\<close>, or by an
  exception nobody catches.
\<close>

datatype exn = KeyError pystr | OSError | ValueError | UnicodeError | ImportError | APIError

datatype abort = SystemExit int | Uncaught exn

record completed =
  returncode :: int
  stdout :: pystr
  stderr :: pystr

datatype event =
    Print pystr
  | PrintErr pystr
  | Subprocess pystr "exn + completed"
  | ReadText pystr "exn + pystr"
  | WriteText pystr pystr "exn option"
  | Request pystr pystr pystr pystr "exn + pystr"

text \<open>
  \<open>Print s\<close> is \<^verbatim>\<open>print(s)\<close> and \<open>PrintErr s\<close> is \<^verbatim>\<open>print(s, file=sys.stderr)\<close>.
  \<open>Subprocess cmd r\<close> is \<^verbatim>\<open>subprocess.run(cmd, shell=True, text=True, capture_output=True)\<close>
  with its result \<open>r\<close>; \<open>ReadText path r\<close> and \<open>WriteText path text r\<close> are the two
  \<^verbatim>\<open>pathlib\<close> calls; \<open>Request key model system user r\<close> is the one call of the hosted API,
  \<open>r\<close> being the text \<^verbatim>\<open>getattr(resp, "output_text", str(resp))\<close>.

  The environment is a record of answers.  Each answer may depend on everything the
  script has done before (the trace so far), so every sequence of answers is the
  behaviour of some environment.  \<open>utcnow\<close> is the text
  \<^verbatim>\<open>datetime.utcnow().strftime('%Y%m%d%H%M%S')\<close> at start-up.
\<close>

record world =
  environ :: "pystr \<Rightarrow> pystr option"
  utcnow :: pystr
  subprocess_run :: "event list \<Rightarrow> pystr \<Rightarrow> exn + completed"
  read_text :: "event list \<Rightarrow> pystr \<Rightarrow> exn + pystr"
  write_text :: "event list \<Rightarrow> pystr \<Rightarrow> pystr \<Rightarrow> exn option"
  responses_create :: "event list \<Rightarrow> pystr \<Rightarrow> pystr \<Rightarrow> pystr \<Rightarrow> pystr \<Rightarrow> exn + pystr"

type_synonym 'a io = "event list \<Rightarrow> (abort + 'a) \<times> event list"

definition and_then :: "'a io \<Rightarrow> ('a \<Rightarrow> 'b io) \<Rightarrow> 'b io" where
  "and_then m f tr = (case m tr of (Inl a, tr') \<Rightarrow> (Inl a, tr') | (Inr x, tr') \<Rightarrow> f x tr')"

definition print :: "pystr \<Rightarrow> unit io" where
  "print s tr = (Inr (), tr @ [Print s])"

text \<open>
  The exit status of the process, as its parent sees it: 0 after a normal return and 1
  after an uncaught exception.  \<^verbatim>\<open>sys.exit(n)\<close> hands \<open>n\<close> to the system, which keeps its
  low eight bits: the status is \<open>n mod 256\<close>, so that \<^verbatim>\<open>sys.exit(-9)\<close> ends with status 247
  (\<^verbatim>\<open>subprocess.run\<close> reports a child killed by signal 9 with the return code \<open>-9\<close>).
  The only argument the script gives to \<^verbatim>\<open>sys.exit\<close> is such a return code, a C integer.
\<close>

fun exit_status :: "abort + 'a \<Rightarrow> int" where
  "exit_status (Inr u) = 0"
| "exit_status (Inl (SystemExit n)) = n mod 256"
| "exit_status (Inl (Uncaught e)) = 1"

section \<open>The script\<close>

subsection \<open>Module level: configuration\<close>

record config =
  BASE_BRANCH :: pystr
  CHANGE_BRANCH :: pystr
  OPENAI_MODEL :: pystr
  OPENAI_API_KEY :: pystr

definition getenv :: "world \<Rightarrow> pystr \<Rightarrow> pystr \<Rightarrow> pystr" where
  "getenv w name dflt = (case environ w name of None \<Rightarrow> dflt | Some v \<Rightarrow> v)"

definition startup :: "world \<Rightarrow> abort + config" where
  "startup w =
     (let base = getenv w (str ''BASE_BRANCH'') (str ''master'');
          change = getenv w (str ''CHANGE_BRANCH'') (str ''codex/refactor-'' @ utcnow w);
          model = getenv w (str ''OPENAI_MODEL'') (str ''gpt-5-codex'')
      in case environ w (str ''OPENAI_API_KEY'') of
           None \<Rightarrow> Inl (Uncaught (KeyError (str ''OPENAI_API_KEY'')))
         | Some key \<Rightarrow>
             Inr \<lparr>BASE_BRANCH = base, CHANGE_BRANCH = change, OPENAI_MODEL = model,
                  OPENAI_API_KEY = key\<rparr>)"

subsection \<open>Command runner and version-control adapter\<close>

definition run :: "world \<Rightarrow> pystr \<Rightarrow> bool \<Rightarrow> pystr io" where
  "run w cmd check tr =
     (let tr1 = tr @ [Print (str ''$ '' @ cmd)];
          r = subprocess_run w tr1 cmd;
          tr2 = tr1 @ [Subprocess cmd r]
      in case r of
           Inl e \<Rightarrow> (Inl (Uncaught e), tr2)
         | Inr p \<Rightarrow>
             if check \<and> returncode p \<noteq> 0
             then (Inl (SystemExit (returncode p)), tr2 @ [Print (stdout p), PrintErr (stderr p)])
             else (Inr (strip (stdout p)), tr2))"

definition git :: "world \<Rightarrow> pystr \<Rightarrow> bool \<Rightarrow> pystr io" where
  "git w args check = run w (str ''git '' @ args) check"

subsection \<open>File selector and snapshot builder\<close>

definition list_files :: "world \<Rightarrow> pystr list io" where
  "list_files w =
     and_then (git w (str ''ls-files'') True)
       (\<lambda>out tr. (Inr (filter should_include_file (splitlines out)), tr))"

text \<open>
  The loop of \<^verbatim>\<open>repo_map\<close>: \<open>parts\<close> is the list built so far.  \<^verbatim>\<open>except Exception\<close>
  catches whatever the read raises, and the loop goes on with the next file.
\<close>

fun repo_map_loop :: "world \<Rightarrow> int \<Rightarrow> pystr list \<Rightarrow> pystr list \<Rightarrow> pystr list io" where
  "repo_map_loop w max_per_file_chars [] parts tr = (Inr parts, tr)"
| "repo_map_loop w max_per_file_chars (fp # fps) parts tr =
     (case read_text w tr fp of
        Inr text \<Rightarrow>
          repo_map_loop w max_per_file_chars fps
            (parts @ [str ''--- '' @ fp @ str '' ---'' @ [10] @ slice_to max_per_file_chars text])
            (tr @ [ReadText fp (Inr text)])
      | Inl e \<Rightarrow>
          repo_map_loop w max_per_file_chars fps parts (tr @ [ReadText fp (Inl e)]))"

definition repo_map :: "world \<Rightarrow> pystr list \<Rightarrow> int \<Rightarrow> int \<Rightarrow> pystr io" where
  "repo_map w files max_per_file_chars max_files =
     and_then (repo_map_loop w max_per_file_chars (slice_to max_files files) [])
       (\<lambda>parts tr. (Inr (join [10, 10] parts), tr))"

subsection \<open>Prompt builder and model client\<close>

definition user_goal :: pystr where
  "user_goal =
     [10] @
     str ''Review the entire codebase with the goal of raising overall quality and maintainability.'' @ [10] @
     str ''Identify duplicate, near-duplicate, or overly verbose code that can be consolidated, and refactor it to improve clarity and consistency.'' @ [10] @
     str ''Break down monolithic functions into smaller, more focused units and ensure the code is DRY, clean, and easy to understand.'' @ [10] @
     str ''Avoid unnecessary abstraction'' @ [8212] @ str ''do not introduce classes or functions that add complexity without real benefit'' @ [8212] @ str ''but re-implement outdated or incompatible code in a modern, clean way aligned with the current architecture.'' @ [10] @
     str ''The objective is to deliver a streamlined, high-quality, and consistent codebase that is maintainable, readable, and free of redundant logic.'' @ [10]"

definition system :: pystr where
  "system =
     [10] @
     str ''You are an expert software engineer. Output ONLY a single unified diff (GNU patch format) relative to the current repository state.'' @ [10] @
     str ''Rules:'' @ [10] @
     str ''- No prose; only diff.'' @ [10] @
     str ''- Correct repo-relative paths.'' @ [10] @
     str ''- Include new/removed/renamed files as needed.'' @ [10] @
     str ''- Keep changes small but meaningful; safe refactors preferred.'' @ [10] @
     str ''- The diff must apply cleanly with: git apply --index --whitespace=fix'' @ [10]"

definition build_prompts :: "pystr \<Rightarrow> pystr \<times> pystr" where
  "build_prompts summary =
     (let user = strip (dedent user_goal) @ [10, 10] @ str ''REPO MAP (truncated):'' @ [10] @ summary
      in (strip system, user))"

definition call_openai :: "world \<Rightarrow> config \<Rightarrow> pystr \<Rightarrow> pystr \<Rightarrow> pystr io" where
  "call_openai w cfg system_prompt user_prompt tr =
     (let r = responses_create w tr (OPENAI_API_KEY cfg) (OPENAI_MODEL cfg) system_prompt user_prompt;
          tr1 = tr @ [Request (OPENAI_API_KEY cfg) (OPENAI_MODEL cfg) system_prompt user_prompt r]
      in case r of
           Inl e \<Rightarrow> (Inl (Uncaught e), tr1)
         | Inr text \<Rightarrow> (Inr (strip text), tr1))"

subsection \<open>Orchestrator\<close>

definition write_patch :: "world \<Rightarrow> pystr \<Rightarrow> pystr \<Rightarrow> unit io" where
  "write_patch w path text tr =
     (let r = write_text w tr path text;
          tr1 = tr @ [WriteText path text r]
      in case r of Some e \<Rightarrow> (Inl (Uncaught e), tr1) | None \<Rightarrow> (Inr (), tr1))"

definition patch_file :: pystr where
  "patch_file = str ''.codex.patch''"

definition commit_args :: pystr where
  "commit_args = str ''commit -m '' @ [34] @ str ''Nightly automated refactor (Codex)'' @ [34]"

definition main :: "world \<Rightarrow> config \<Rightarrow> unit io" where
  "main w cfg =
     and_then (git w (str ''checkout '' @ quote (BASE_BRANCH cfg)) True) (\<lambda>_.
     and_then (git w (str ''pull --ff-only'') True) (\<lambda>_.
     and_then (list_files w) (\<lambda>files.
     and_then (repo_map w files 4000 150) (\<lambda>summary.
     case build_prompts summary of (system_p, user_p) \<Rightarrow>
     and_then (call_openai w cfg system_p user_p) (\<lambda>diff.
     if \<not> (startswith diff (str ''diff --git'') \<or> startswith diff (str ''--- ''))
     then
       and_then (print (str ''Model did not return a unified diff; exiting without changes.'')) (\<lambda>_.
       print (slice_to 2000 diff))
     else
       and_then (git w (str ''checkout -b '' @ quote (CHANGE_BRANCH cfg)) True) (\<lambda>_.
       and_then (write_patch w patch_file diff) (\<lambda>_.
       and_then (run w (str ''git apply --index --whitespace=fix '' @ patch_file) True) (\<lambda>_.
       and_then (git w (str ''status --porcelain'') False) (\<lambda>status.
       if status = [] then print (str ''No changes to commit.'')
       else
         and_then (git w commit_args True) (\<lambda>_.
         and_then (git w (str ''push -u origin '' @ quote (CHANGE_BRANCH cfg)) True) (\<lambda>_.
         print (str ''Branch pushed; PR step will create/update the pull request.''))))))))))))"

text \<open>The whole process: the module-level assignments, then \<^verbatim>\<open>main()\<close> on an empty trace.\<close>

definition script :: "world \<Rightarrow> (abort + unit) \<times> event list" where
  "script w = (case startup w of Inl a \<Rightarrow> (Inl a, []) | Inr cfg \<Rightarrow> main w cfg [])"

subsection \<open>Reading a trace\<close>

fun command_of :: "event \<Rightarrow> pystr list" where
  "command_of (Subprocess cmd r) = [cmd]"
| "command_of e = []"

definition commands :: "event list \<Rightarrow> pystr list" where
  "commands tr = concat (map command_of tr)"

fun is_write :: "event \<Rightarrow> bool" where
  "is_write (WriteText path text r) = True"
| "is_write e = False"

section \<open>The shell's reading of a command\<close>

text \<open>
  The command runner hands its text to \<^verbatim>\<open>sh -c\<close>.  \<open>sh_argv\<close> reads a command the way
  the POSIX shell recognises tokens, for the commands that are one simple command of
  literal words: blanks and tabs separate words; between single quotes every character
  stands for itself; between double quotes every character but dollar, backquote and
  backslash does; neighbouring quoted and unquoted pieces make one word.  Any character
  with a meaning of its own outside quotes (operators, line feed, expansions, patterns,
  comments, backslash) makes the result \<open>None\<close>, as does an open quote at the end: \<open>None\<close>
  stands for every command that may be more than a list of literal words.
\<close>

datatype quoting = Unquoted | SingleQuoted | DoubleQuoted

definition sh_special :: "nat \<Rightarrow> bool" where
  "sh_special c = (c \<in> set (str ''|&;<>()$*?[]#~{}!^'') \<or> c = 92 \<or> c = 96 \<or> c = 10 \<or> c = 0)"

definition word_so_far :: "pystr option \<Rightarrow> pystr" where
  "word_so_far cur = (case cur of None \<Rightarrow> [] | Some w \<Rightarrow> w)"

fun sh_words :: "quoting \<Rightarrow> pystr option \<Rightarrow> pystr \<Rightarrow> pystr list option" where
  "sh_words Unquoted cur [] = Some (case cur of None \<Rightarrow> [] | Some w \<Rightarrow> [w])"
| "sh_words SingleQuoted cur [] = None"
| "sh_words DoubleQuoted cur [] = None"
| "sh_words Unquoted cur (c # cs) =
     (if c = 32 \<or> c = 9 then
        (case cur of
           None \<Rightarrow> sh_words Unquoted None cs
         | Some w \<Rightarrow> map_option (Cons w) (sh_words Unquoted None cs))
      else if c = 39 then sh_words SingleQuoted (Some (word_so_far cur)) cs
      else if c = 34 then sh_words DoubleQuoted (Some (word_so_far cur)) cs
      else if sh_special c then None
      else sh_words Unquoted (Some (word_so_far cur @ [c])) cs)"
| "sh_words SingleQuoted cur (c # cs) =
     (if c = 39 then sh_words Unquoted cur cs
      else sh_words SingleQuoted (Some (word_so_far cur @ [c])) cs)"
| "sh_words DoubleQuoted cur (c # cs) =
     (if c = 34 then sh_words Unquoted cur cs
      else if c = 36 \<or> c = 96 \<or> c = 92 then None
      else sh_words DoubleQuoted (Some (word_so_far cur @ [c])) cs)"

definition sh_argv :: "pystr \<Rightarrow> pystr list option" where
  "sh_argv cmd = sh_words Unquoted None cmd"

section \<open>Describing a run\<close>

text \<open>
  The reads of the snapshot builder, as the trace shows them: \<open>read_results\<close> are the
  answers to the reads of \<open>fps\<close> in order, \<open>read_events\<close> the events they leave, and
  \<open>excerpt\<close> what one file adds to the list \<^verbatim>\<open>parts\<close> (nothing when its read raised).
\<close>

fun read_results :: "world \<Rightarrow> event list \<Rightarrow> pystr list \<Rightarrow> (exn + pystr) list" where
  "read_results w tr [] = []"
| "read_results w tr (fp # fps) =
     read_text w tr fp # read_results w (tr @ [ReadText fp (read_text w tr fp)]) fps"

definition read_events :: "world \<Rightarrow> event list \<Rightarrow> pystr list \<Rightarrow> event list" where
  "read_events w tr fps = map2 ReadText fps (read_results w tr fps)"

definition excerpt :: "int \<Rightarrow> pystr \<Rightarrow> exn + pystr \<Rightarrow> pystr list" where
  "excerpt cap fp r =
     (case r of
        Inl e \<Rightarrow> []
      | Inr body \<Rightarrow> [str ''--- '' @ fp @ str '' ---'' @ [10] @ slice_to cap body])"

definition snapshot :: "world \<Rightarrow> int \<Rightarrow> event list \<Rightarrow> pystr list \<Rightarrow> pystr" where
  "snapshot w cap tr fps = join [10, 10] (concat (map2 (excerpt cap) fps (read_results w tr fps)))"

text \<open>An environment for examples: every command gets the answer \<open>answer\<close> gives for its
  text, every read the answer \<open>file\<close> gives for its path, the patch file can be written,
  and the API replies \<open>reply\<close>.\<close>

definition demo_world :: "(pystr \<Rightarrow> completed) \<Rightarrow> (pystr \<Rightarrow> exn + pystr) \<Rightarrow> pystr \<Rightarrow> world" where
  "demo_world answer file reply =
     \<lparr>environ = [str ''OPENAI_API_KEY'' \<mapsto> str ''key''],
      utcnow = str ''20250101000000'',
      subprocess_run = (\<lambda>tr cmd. Inr (answer cmd)),
      read_text = (\<lambda>tr path. file path),
      write_text = (\<lambda>tr path body. None),
      responses_create = (\<lambda>tr key model sys usr. Inr reply)\<rparr>"

definition demo_config :: config where
  "demo_config =
     \<lparr>BASE_BRANCH = str ''master'', CHANGE_BRANCH = str ''codex/refactor-20250101000000'',
      OPENAI_MODEL = str ''gpt-5-codex'', OPENAI_API_KEY = str ''key''\<rparr>"

subsection \<open>The pieces of a run of the orchestrator\<close>

text \<open>
  The commands of the orchestrator, and the pieces of trace its steps leave:
  \<open>ran cmd r\<close> for one call of the command runner with result \<open>r\<close>, \<open>diagnostics p\<close> for
  the two prints before \<^verbatim>\<open>sys.exit\<close>, \<open>synced\<close> for the three commands of a good start,
  \<open>head_trace\<close> for the start with the reads of the snapshot, \<open>request\<close> for the API call
  that follows, and \<open>patched\<close> for a run up to the applied patch.
\<close>

definition checkout_cmd :: "config \<Rightarrow> pystr" where
  "checkout_cmd cfg = str ''git '' @ str ''checkout '' @ quote (BASE_BRANCH cfg)"

definition pull_cmd :: pystr where
  "pull_cmd = str ''git '' @ str ''pull --ff-only''"

definition ls_files_cmd :: pystr where
  "ls_files_cmd = str ''git '' @ str ''ls-files''"

definition branch_cmd :: "config \<Rightarrow> pystr" where
  "branch_cmd cfg = str ''git '' @ str ''checkout -b '' @ quote (CHANGE_BRANCH cfg)"

definition apply_cmd :: pystr where
  "apply_cmd = str ''git apply --index --whitespace=fix '' @ patch_file"

definition status_cmd :: pystr where
  "status_cmd = str ''git '' @ str ''status --porcelain''"

definition commit_cmd :: pystr where
  "commit_cmd = str ''git '' @ commit_args"

definition push_cmd :: "config \<Rightarrow> pystr" where
  "push_cmd cfg = str ''git '' @ str ''push -u origin '' @ quote (CHANGE_BRANCH cfg)"

definition ran :: "pystr \<Rightarrow> exn + completed \<Rightarrow> event list" where
  "ran cmd r = [Print (str ''$ '' @ cmd), Subprocess cmd r]"

definition diagnostics :: "completed \<Rightarrow> event list" where
  "diagnostics p = [Print (stdout p), PrintErr (stderr p)]"

definition is_diff :: "pystr \<Rightarrow> bool" where
  "is_diff d = (startswith d (str ''diff --git'') \<or> startswith d (str ''--- ''))"

definition listed :: "completed \<Rightarrow> pystr list" where
  "listed p = filter should_include_file (splitlines (strip (stdout p)))"

definition synced :: "config \<Rightarrow> completed \<Rightarrow> completed \<Rightarrow> completed \<Rightarrow> event list" where
  "synced cfg p1 p2 p3 =
     ran (checkout_cmd cfg) (Inr p1) @ ran pull_cmd (Inr p2) @ ran ls_files_cmd (Inr p3)"

definition head_trace :: "world \<Rightarrow> config \<Rightarrow> completed \<Rightarrow> completed \<Rightarrow> completed \<Rightarrow> event list" where
  "head_trace w cfg p1 p2 p3 =
     synced cfg p1 p2 p3 @ read_events w (synced cfg p1 p2 p3) (slice_to 150 (listed p3))"

definition request ::
  "world \<Rightarrow> config \<Rightarrow> completed \<Rightarrow> completed \<Rightarrow> completed \<Rightarrow> exn + pystr \<Rightarrow> event" where
  "request w cfg p1 p2 p3 x =
     Request (OPENAI_API_KEY cfg) (OPENAI_MODEL cfg)
       (fst (build_prompts (snapshot w 4000 (synced cfg p1 p2 p3) (slice_to 150 (listed p3)))))
       (snd (build_prompts (snapshot w 4000 (synced cfg p1 p2 p3) (slice_to 150 (listed p3)))))
       x"

definition patched ::
  "world \<Rightarrow> config \<Rightarrow> completed \<Rightarrow> completed \<Rightarrow> completed \<Rightarrow> pystr \<Rightarrow> completed \<Rightarrow>
   completed \<Rightarrow> event list" where
  "patched w cfg p1 p2 p3 body p4 p5 =
     head_trace w cfg p1 p2 p3 @ [request w cfg p1 p2 p3 (Inr body)] @
     ran (branch_cmd cfg) (Inr p4) @ [WriteText patch_file (strip body) None] @
     ran apply_cmd (Inr p5)"

text \<open>Environments for examples.  In all of them every command but the ones named succeeds
  and prints nothing, and no file is listed.  The model refuses; the patch changes nothing;
  the patch changes a file; the commit command fails after a status that shows a change;
  the status command itself fails and prints nothing.\<close>

definition quiet :: completed where
  "quiet = \<lparr>returncode = 0, stdout = [], stderr = []\<rparr>"

definition refusing_world :: world where
  "refusing_world =
     demo_world (\<lambda>cmd. quiet) (\<lambda>path. Inl OSError) (str ''I cannot help with that.'')"

definition failing_commit_world :: world where
  "failing_commit_world =
     demo_world
       (\<lambda>cmd. if cmd = commit_cmd then \<lparr>returncode = 1, stdout = [], stderr = str ''rejected''\<rparr>
              else if cmd = status_cmd then \<lparr>returncode = 0, stdout = str ''M a.py'', stderr = []\<rparr>
              else quiet)
       (\<lambda>path. Inl OSError) (str ''--- a/a.py'')"

definition unchanged_world :: world where
  "unchanged_world = demo_world (\<lambda>cmd. quiet) (\<lambda>path. Inl OSError) (str ''--- a/a.py'')"

definition changed_world :: world where
  "changed_world =
     demo_world
       (\<lambda>cmd. if cmd = status_cmd then \<lparr>returncode = 0, stdout = str ''M a.py'', stderr = []\<rparr>
              else quiet)
       (\<lambda>path. Inl OSError) (str ''--- a/a.py'')"

text \<open>A configuration whose change branch is no plain word for a shell.\<close>

definition hostile_config :: config where
  "hostile_config = demo_config\<lparr>CHANGE_BRANCH := str ''x; rm -rf ~''\<rparr>"

definition status_fails_world :: world where
  "status_fails_world =
     demo_world
       (\<lambda>cmd. if cmd = status_cmd then \<lparr>returncode = 128, stdout = [], stderr = str ''fatal''\<rparr>
              else quiet)
       (\<lambda>path. Inl OSError) (str ''--- a/a.py'')"

section \<open>Facts about the text functions\<close>

lemma startswith_prefix: "startswith s p = prefix p s"
  unfolding startswith_def prefix_def by (metis append_eq_conv_conj)

lemma contains_sublist: "contains sub s = sublist sub s"
  by (induction s) (simp_all add: startswith_prefix sublist_Cons_right)

lemma strip_decompose:
  "\<exists>a b. s = a @ strip s @ b \<and> list_all isspace a \<and> list_all isspace b"
proof -
  let ?t = "dropWhile isspace s"
  have 1: "s = takeWhile isspace s @ ?t" by simp
  have 2: "?t = rev (dropWhile isspace (rev ?t)) @ rev (takeWhile isspace (rev ?t))"
    by (metis rev_append rev_rev_ident takeWhile_dropWhile_id)
  have 3: "list_all isspace (takeWhile isspace s)"
    by (simp add: list_all_iff) (meson set_takeWhileD)
  have 4: "list_all isspace (rev (takeWhile isspace (rev ?t)))"
    by (simp add: list_all_iff) (meson set_takeWhileD)
  have "s = takeWhile isspace s @ strip s @ rev (takeWhile isspace (rev ?t))"
    using 1 2 by (simp add: strip_def lstrip_def rstrip_def)
  with 3 4 show ?thesis by blast
qed

lemma incl_ext_distinct: "distinct incl_ext"
  by (simp add: incl_ext_def str_def)

lemma incl_ext_length: "length incl_ext = 22"
  by (simp add: incl_ext_def)

lemma incl_ext_card: "card (set incl_ext) = 22"
  using incl_ext_distinct incl_ext_length by (simp add: distinct_card)

lemma ext_accepted:
  "list_all (\<lambda>e. should_include_file (str ''a'' @ e) \<and> lower (path_suffix (str ''a'' @ e)) = e) incl_ext"
  by (simp add: incl_ext_def should_include_file_def path_suffix_def path_name_def path_parts_def
      split_on_def rfind_def lower_def lower_cp_def startswith_def str_def Let_def)

lemma no_set_of_twenty_one:
  "\<not> (\<exists>exts. card exts = 21 \<and>
        (\<forall>path. should_include_file path \<longleftrightarrow>
           lower (path_suffix path) \<in> exts \<and>
           \<not> sublist (str ''node_modules/'') path \<and>
           \<not> sublist (str ''.git/'') path \<and>
           \<not> sublist (str ''vendor/'') path))"
proof
  assume "\<exists>exts. card exts = 21 \<and>
        (\<forall>path. should_include_file path \<longleftrightarrow>
           lower (path_suffix path) \<in> exts \<and>
           \<not> sublist (str ''node_modules/'') path \<and>
           \<not> sublist (str ''.git/'') path \<and>
           \<not> sublist (str ''vendor/'') path)"
  then obtain exts where c: "card exts = 21"
    and iff: "\<And>path. should_include_file path \<Longrightarrow> lower (path_suffix path) \<in> exts"
    by blast
  have fin: "finite exts" using c by (simp add: card_ge_0_finite)
  have "set incl_ext \<subseteq> exts"
  proof
    fix e assume "e \<in> set incl_ext"
    with ext_accepted have "should_include_file (str ''a'' @ e)"
      and "lower (path_suffix (str ''a'' @ e)) = e"
      by (simp_all add: list_all_iff)
    with iff[of "str ''a'' @ e"] show "e \<in> exts" by simp
  qed
  with fin have "card (set incl_ext) \<le> card exts" by (simp add: card_mono)
  with c incl_ext_card show False by simp
qed

subsection \<open>A listing of paths, one to a line\<close>

text \<open>
  A listing as \<^verbatim>\<open>git ls-files\<close> prints it is the paths, each followed by a line feed.
  When no path holds a line boundary, the first path does not begin with whitespace and
  the last does not end with it, \<open>strip\<close> takes away the final line feed only and
  \<open>splitlines\<close> gives the paths back.
\<close>

lemma splitlines_from_line:
  "\<not> list_ex linebreak f \<Longrightarrow>
     splitlines_from cur (f @ 10 # rest) = (cur @ f) # splitlines_from [] rest"
proof (induction f arbitrary: cur)
  case Nil
  show ?case by (cases rest) (simp_all add: linebreak_def)
next
  case (Cons c f)
  note prems = Cons.prems and IH = Cons.IH
  from prems have c: "\<not> linebreak c" and f: "\<not> list_ex linebreak f" by simp_all
  obtain d cs where tl: "f @ 10 # rest = d # cs" by (cases f) simp_all
  from c have "c \<noteq> 13" by (auto simp: linebreak_def)
  with c tl have "splitlines_from cur (c # f @ 10 # rest) =
      splitlines_from (cur @ [c]) (f @ 10 # rest)"
    by simp
  with IH[OF f, of "cur @ [c]"] show ?case by simp
qed

lemma splitlines_from_last:
  "\<not> list_ex linebreak f \<Longrightarrow> f \<noteq> [] \<Longrightarrow> splitlines_from cur f = [cur @ f]"
proof (induction f arbitrary: cur)
  case Nil
  then show ?case by simp
next
  case (Cons c f)
  note prems = Cons.prems and IH = Cons.IH
  from prems have c: "\<not> linebreak c" and f: "\<not> list_ex linebreak f" by simp_all
  from c have c13: "c \<noteq> 13" by (auto simp: linebreak_def)
  show ?case
  proof (cases f)
    case Nil
    with c show ?thesis by simp
  next
    case more: (Cons d cs)
    with c c13 have "splitlines_from cur (c # f) = splitlines_from (cur @ [c]) f" by simp
    with IH[OF f, of "cur @ [c]"] more show ?thesis by simp
  qed
qed

lemma splitlines_join:
  "paths \<noteq> [] \<Longrightarrow> \<forall>f\<in>set paths. \<not> list_ex linebreak f \<Longrightarrow> last paths \<noteq> [] \<Longrightarrow>
     splitlines_from [] (join [10] paths) = paths"
proof (induction paths rule: induct_list012)
  case 1
  then show ?case by simp
next
  case (2 x)
  then show ?case by (simp add: splitlines_from_last)
next
  case (3 x y zs)
  from 3(3,4,5) have "splitlines_from [] (join [10] (y # zs)) = y # zs"
    by (intro 3(2)) simp_all
  moreover from 3(4) have "\<not> list_ex linebreak x" by simp
  ultimately show ?case by (simp add: splitlines_from_line)
qed

lemma listing_join:
  "paths \<noteq> [] \<Longrightarrow> concat (map (\<lambda>f. f @ [10]) paths) = join [10] paths @ [10]"
  by (induction paths rule: induct_list012) simp_all

lemma hd_join:
  "paths \<noteq> [] \<Longrightarrow> hd paths \<noteq> [] \<Longrightarrow>
     join [10] paths \<noteq> [] \<and> hd (join [10] paths) = hd (hd paths)"
  by (induction paths rule: induct_list012) simp_all

lemma last_join:
  "paths \<noteq> [] \<Longrightarrow> last paths \<noteq> [] \<Longrightarrow> last (join [10] paths) = last (last paths)"
proof (induction paths rule: induct_list012)
  case (3 x y zs)
  then have "join [10] (y # zs) \<noteq> []" by (cases zs) auto
  with 3 show ?case by simp
qed simp_all

lemma strip_line:
  assumes "s \<noteq> []" and "\<not> isspace (hd s)" and "\<not> isspace (last s)"
  shows "strip (s @ [10]) = s"
proof -
  from assms(1) obtain a s' where a: "s = a # s'" by (cases s) simp_all
  from assms(1) obtain s'' b where b: "s = s'' @ [b]" by (cases s rule: rev_cases) simp_all
  from a assms(2) have "lstrip (s @ [10]) = s @ [10]" by (simp add: lstrip_def)
  moreover from b assms(3) have "rstrip (s @ [10]) = s" by (simp add: rstrip_def isspace_def)
  ultimately show ?thesis by (simp add: strip_def)
qed

lemma splitlines_listing:
  assumes "out = concat (map (\<lambda>f. f @ [10]) paths)"
    and "\<forall>f\<in>set paths. \<not> list_ex linebreak f"
    and "paths \<noteq> [] \<longrightarrow> hd paths \<noteq> [] \<and> \<not> isspace (hd (hd paths)) \<and>
           last paths \<noteq> [] \<and> \<not> isspace (last (last paths))"
  shows "splitlines (strip out) = paths"
proof (cases "paths = []")
  case True
  with assms(1) show ?thesis by (simp add: splitlines_def strip_def lstrip_def rstrip_def)
next
  case False
  with assms(3) have e: "hd paths \<noteq> []" "\<not> isspace (hd (hd paths))"
    "last paths \<noteq> []" "\<not> isspace (last (last paths))" by simp_all
  from False assms(1) have "out = join [10] paths @ [10]" by (simp add: listing_join)
  moreover from False e have "strip (join [10] paths @ [10]) = join [10] paths"
    by (intro strip_line) (simp_all add: hd_join last_join)
  ultimately show ?thesis using False assms(2) e(3) by (simp add: splitlines_def splitlines_join)
qed

section \<open>Stepping through the script\<close>

lemma run_eq:
  "run w cmd check tr =
     (case subprocess_run w (tr @ [Print (str ''$ '' @ cmd)]) cmd of
        Inl e \<Rightarrow> (Inl (Uncaught e), tr @ [Print (str ''$ '' @ cmd), Subprocess cmd (Inl e)])
      | Inr p \<Rightarrow>
          if check \<and> returncode p \<noteq> 0
          then (Inl (SystemExit (returncode p)),
                tr @ [Print (str ''$ '' @ cmd), Subprocess cmd (Inr p), Print (stdout p), PrintErr (stderr p)])
          else (Inr (strip (stdout p)), tr @ [Print (str ''$ '' @ cmd), Subprocess cmd (Inr p)]))"
  by (simp add: run_def Let_def split: sum.splits)

lemma list_files_eq:
  assumes "subprocess_run w (tr @ [Print (str ''$ '' @ str ''git '' @ str ''ls-files'')])
             (str ''git '' @ str ''ls-files'') = Inr p"
    and "returncode p = 0"
  shows "fst (list_files w tr) = Inr (filter should_include_file (splitlines (strip (stdout p))))"
  using assms by (simp add: list_files_def git_def and_then_def run_eq)

lemma length_read_results: "length (read_results w tr fps) = length fps"
  by (induction fps arbitrary: tr) simp_all

lemma repo_map_loop_eq:
  "repo_map_loop w cap fps parts tr =
     (Inr (parts @ concat (map2 (excerpt cap) fps (read_results w tr fps))),
      tr @ read_events w tr fps)"
  by (induction fps arbitrary: parts tr) (simp_all add: excerpt_def read_events_def split: sum.splits)

lemma repo_map_eq:
  "repo_map w files cap maxf tr =
     (Inr (snapshot w cap tr (slice_to maxf files)), tr @ read_events w tr (slice_to maxf files))"
  by (simp add: repo_map_def and_then_def repo_map_loop_eq snapshot_def)

lemma loop_bounded:
  assumes "0 \<le> cap"
  shows "\<exists>included contents.
           fst (repo_map_loop w cap fps parts tr) =
             Inr (parts @ map2 (\<lambda>fp c. str ''--- '' @ fp @ str '' ---'' @ [10] @ c) included contents) \<and>
           length contents = length included \<and> subseq included fps \<and>
           list_all (\<lambda>c. int (length c) \<le> cap) contents"
proof (induction fps arbitrary: parts tr)
  case Nil
  show ?case by (rule exI[of _ "[]"], rule exI[of _ "[]"]) simp
next
  case (Cons fp fps)
  show ?case
  proof (cases "read_text w tr fp")
    case (Inl e)
    from Cons.IH[of parts "tr @ [ReadText fp (Inl e)]"] obtain inc cs where
      "fst (repo_map_loop w cap fps parts (tr @ [ReadText fp (Inl e)])) =
         Inr (parts @ map2 (\<lambda>fp c. str ''--- '' @ fp @ str '' ---'' @ [10] @ c) inc cs)"
      "length cs = length inc" "subseq inc fps" "list_all (\<lambda>c. int (length c) \<le> cap) cs"
      by blast
    then show ?thesis using Inl
      by (intro exI[of _ inc] exI[of _ cs]) (simp add: list_emb_Cons)
  next
    case (Inr body)
    let ?c = "slice_to cap body"
    let ?p = "parts @ [str ''--- '' @ fp @ str '' ---'' @ [10] @ ?c]"
    from Cons.IH[of ?p "tr @ [ReadText fp (Inr body)]"]
    obtain inc cs where
      "fst (repo_map_loop w cap fps ?p (tr @ [ReadText fp (Inr body)])) =
         Inr (?p @ map2 (\<lambda>fp c. str ''--- '' @ fp @ str '' ---'' @ [10] @ c) inc cs)"
      "length cs = length inc" "subseq inc fps" "list_all (\<lambda>c. int (length c) \<le> cap) cs"
      by blast
    moreover have "int (length ?c) \<le> cap" using assms by (simp add: slice_to_def)
    ultimately show ?thesis using Inr
      by (intro exI[of _ "fp # inc"] exI[of _ "?c # cs"]) simp
  qed
qed

section \<open>The shell reads a quoted branch name as one word\<close>

lemma safe_char_plain:
  "safe_char c \<Longrightarrow> c \<noteq> 32 \<and> c \<noteq> 9 \<and> c \<noteq> 39 \<and> c \<noteq> 34 \<and> \<not> sh_special c"
  by (auto simp: safe_char_def sh_special_def str_def)

lemma sh_words_safe:
  "list_all safe_char s \<Longrightarrow> s \<noteq> [] \<Longrightarrow>
     sh_words Unquoted cur (s @ rest) = sh_words Unquoted (Some (word_so_far cur @ s)) rest"
proof (induction s arbitrary: cur)
  case Nil
  then show ?case by simp
next
  case (Cons c s)
  then have c: "c \<noteq> 32" "c \<noteq> 9" "c \<noteq> 39" "c \<noteq> 34" "\<not> sh_special c"
    using safe_char_plain[of c] by simp_all
  show ?case
  proof (cases "s = []")
    case True
    with c show ?thesis by simp
  next
    case False
    with Cons c show ?thesis by (simp add: word_so_far_def)
  qed
qed

lemma sh_words_single_quoted:
  "sh_words SingleQuoted (Some w) (concat (map quote_char s) @ 39 # rest) =
     sh_words Unquoted (Some (w @ s)) rest"
  by (induction s arbitrary: w) (simp_all add: quote_char_def word_so_far_def)

lemma sh_words_quote: "sh_words Unquoted None (quote b) = Some [b]"
proof (cases "b = []")
  case True
  then show ?thesis by (simp add: quote_def word_so_far_def)
next
  case False
  show ?thesis
  proof (cases "list_all safe_char b")
    case True
    with False sh_words_safe[of b None "[]"] show ?thesis
      by (simp add: quote_def word_so_far_def)
  next
    case unsafe: False
    with False sh_words_single_quoted[of "[]" b "[]"] show ?thesis
      by (simp add: quote_def word_so_far_def)
  qed
qed

lemma sh_argv_checkout:
  "sh_argv (str ''git '' @ str ''checkout '' @ x) =
     map_option (\<lambda>ws. str ''git'' # str ''checkout'' # ws) (sh_words Unquoted None x)"
  by (simp add: sh_argv_def str_def sh_special_def word_so_far_def option.map_comp comp_def)

lemma sh_argv_checkout_b:
  "sh_argv (str ''git '' @ str ''checkout -b '' @ x) =
     map_option (\<lambda>ws. str ''git'' # str ''checkout'' # str ''-b'' # ws) (sh_words Unquoted None x)"
  by (simp add: sh_argv_def str_def sh_special_def word_so_far_def option.map_comp comp_def)

lemma sh_argv_push:
  "sh_argv (str ''git '' @ str ''push -u origin '' @ x) =
     map_option (\<lambda>ws. str ''git'' # str ''push'' # str ''-u'' # str ''origin'' # ws)
       (sh_words Unquoted None x)"
  by (simp add: sh_argv_def str_def sh_special_def word_so_far_def option.map_comp comp_def)

lemma sh_argv_fixed:
  "sh_argv (str ''git '' @ str ''pull --ff-only'') = Some [str ''git'', str ''pull'', str ''--ff-only'']"
  "sh_argv (str ''git '' @ str ''ls-files'') = Some [str ''git'', str ''ls-files'']"
  "sh_argv (str ''git apply --index --whitespace=fix '' @ patch_file) =
     Some [str ''git'', str ''apply'', str ''--index'', str ''--whitespace=fix'', str ''.codex.patch'']"
  "sh_argv (str ''git '' @ str ''status --porcelain'') = Some [str ''git'', str ''status'', str ''--porcelain'']"
  "sh_argv (str ''git '' @ commit_args) =
     Some [str ''git'', str ''commit'', str ''-m'', str ''Nightly automated refactor (Codex)'']"
  by (simp_all add: sh_argv_def str_def sh_special_def word_so_far_def patch_file_def commit_args_def)

lemma sh_argv_cmds:
  "sh_argv (checkout_cmd cfg) = Some [str ''git'', str ''checkout'', BASE_BRANCH cfg]"
  "sh_argv pull_cmd = Some [str ''git'', str ''pull'', str ''--ff-only'']"
  "sh_argv ls_files_cmd = Some [str ''git'', str ''ls-files'']"
  "sh_argv (branch_cmd cfg) = Some [str ''git'', str ''checkout'', str ''-b'', CHANGE_BRANCH cfg]"
  "sh_argv apply_cmd =
     Some [str ''git'', str ''apply'', str ''--index'', str ''--whitespace=fix'', str ''.codex.patch'']"
  "sh_argv status_cmd = Some [str ''git'', str ''status'', str ''--porcelain'']"
  "sh_argv commit_cmd =
     Some [str ''git'', str ''commit'', str ''-m'', str ''Nightly automated refactor (Codex)'']"
  "sh_argv (push_cmd cfg) =
     Some [str ''git'', str ''push'', str ''-u'', str ''origin'', CHANGE_BRANCH cfg]"
  by (simp_all add: checkout_cmd_def pull_cmd_def ls_files_cmd_def branch_cmd_def apply_cmd_def
      status_cmd_def commit_cmd_def push_cmd_def sh_argv_checkout sh_argv_checkout_b sh_argv_push
      sh_words_quote sh_argv_fixed)

section \<open>The runs of the orchestrator\<close>

lemma and_then_list_files:
  "and_then (list_files w) f tr =
     and_then (run w (str ''git '' @ str ''ls-files'') True)
       (\<lambda>out. f (filter should_include_file (splitlines out))) tr"
  by (simp add: list_files_def git_def and_then_def split: prod.splits sum.splits)

lemma run_step:
  assumes "and_then (run w cmd check) f tr0 = (out, tr)"
  obtains (raised) e where "out = Inl (Uncaught e)" "tr = tr0 @ ran cmd (Inl e)"
  | (failed) p where "check" "returncode p \<noteq> 0" "out = Inl (SystemExit (returncode p))"
      "tr = tr0 @ ran cmd (Inr p) @ diagnostics p"
  | (ok) p where "check \<longrightarrow> returncode p = 0"
      "f (strip (stdout p)) (tr0 @ ran cmd (Inr p)) = (out, tr)"
proof (cases "subprocess_run w (tr0 @ [Print (str ''$ '' @ cmd)]) cmd")
  case (Inl e)
  with assms have "out = Inl (Uncaught e)" "tr = tr0 @ ran cmd (Inl e)"
    by (auto simp: and_then_def run_eq ran_def)
  then show ?thesis by (rule that(1))
next
  case (Inr p)
  show ?thesis
  proof (cases "check \<and> returncode p \<noteq> 0")
    case True
    with assms Inr have "out = Inl (SystemExit (returncode p))"
      "tr = tr0 @ ran cmd (Inr p) @ diagnostics p"
      by (auto simp: and_then_def run_eq ran_def diagnostics_def)
    with True show ?thesis by (intro that(2)[of p]) simp_all
  next
    case False
    with assms Inr have "f (strip (stdout p)) (tr0 @ ran cmd (Inr p)) = (out, tr)"
      by (auto simp: and_then_def run_eq ran_def)
    with False show ?thesis by (intro that(3)[of p]) auto
  qed
qed

lemma list_files_step:
  assumes "and_then (list_files w) f tr0 = (out, tr)"
  obtains (raised) e where "out = Inl (Uncaught e)" "tr = tr0 @ ran ls_files_cmd (Inl e)"
  | (failed) p where "returncode p \<noteq> 0" "out = Inl (SystemExit (returncode p))"
      "tr = tr0 @ ran ls_files_cmd (Inr p) @ diagnostics p"
  | (ok) p where "returncode p = 0" "f (listed p) (tr0 @ ran ls_files_cmd (Inr p)) = (out, tr)"
proof -
  from assms have
    "and_then (run w ls_files_cmd True) (\<lambda>out. f (filter should_include_file (splitlines out))) tr0 =
       (out, tr)"
    by (simp add: and_then_list_files ls_files_cmd_def)
  then show ?thesis
  proof (cases rule: run_step)
    case (raised e)
    then show ?thesis by (rule that(1))
  next
    case (failed p)
    then show ?thesis by (intro that(2)[of p]) simp_all
  next
    case (ok p)
    then show ?thesis by (intro that(3)[of p]) (simp_all add: listed_def)
  qed
qed

lemma repo_map_step:
  assumes "and_then (repo_map w files cap maxf) f tr0 = (out, tr)"
  obtains (go) "f (snapshot w cap tr0 (slice_to maxf files))
             (tr0 @ read_events w tr0 (slice_to maxf files)) = (out, tr)"
  using assms that by (simp add: and_then_def repo_map_eq)

lemma call_openai_step:
  assumes "and_then (call_openai w cfg s u) f tr0 = (out, tr)"
  obtains (raised) e where "out = Inl (Uncaught e)"
      "tr = tr0 @ [Request (OPENAI_API_KEY cfg) (OPENAI_MODEL cfg) s u (Inl e)]"
  | (ok) body where
      "f (strip body) (tr0 @ [Request (OPENAI_API_KEY cfg) (OPENAI_MODEL cfg) s u (Inr body)]) = (out, tr)"
proof (cases "responses_create w tr0 (OPENAI_API_KEY cfg) (OPENAI_MODEL cfg) s u")
  case (Inl e)
  with assms have "out = Inl (Uncaught e)"
    "tr = tr0 @ [Request (OPENAI_API_KEY cfg) (OPENAI_MODEL cfg) s u (Inl e)]"
    by (auto simp: and_then_def call_openai_def Let_def)
  then show ?thesis by (rule that(1))
next
  case (Inr body)
  with assms have
    "f (strip body) (tr0 @ [Request (OPENAI_API_KEY cfg) (OPENAI_MODEL cfg) s u (Inr body)]) = (out, tr)"
    by (auto simp: and_then_def call_openai_def Let_def)
  then show ?thesis by (rule that(2))
qed

lemma write_patch_step:
  assumes "and_then (write_patch w path body) f tr0 = (out, tr)"
  obtains (raised) e where "out = Inl (Uncaught e)" "tr = tr0 @ [WriteText path body (Some e)]"
  | (ok) "f () (tr0 @ [WriteText path body None]) = (out, tr)"
proof (cases "write_text w tr0 path body")
  case None
  with assms have "f () (tr0 @ [WriteText path body None]) = (out, tr)"
    by (auto simp: and_then_def write_patch_def Let_def)
  then show ?thesis by (rule that(2))
next
  case (Some e)
  with assms have "out = Inl (Uncaught e)" "tr = tr0 @ [WriteText path body (Some e)]"
    by (auto simp: and_then_def write_patch_def Let_def)
  then show ?thesis by (rule that(1))
qed

lemma print_step:
  assumes "and_then (print s) f tr0 = (out, tr)"
  obtains (go) "f () (tr0 @ [Print s]) = (out, tr)"
  using assms that by (simp add: and_then_def print_def)

lemma if_step:
  assumes "(if c then a else b) tr0 = (out, tr)"
  obtains (yes) "c" "a tr0 = (out, tr)" | (no) "\<not> c" "b tr0 = (out, tr)"
  using assms that by (cases c) simp_all

lemmas run_defs =
  synced_def head_trace_def request_def patched_def checkout_cmd_def pull_cmd_def
  ls_files_cmd_def branch_cmd_def apply_cmd_def status_cmd_def commit_cmd_def push_cmd_def
  is_diff_def print_def

lemma main_cases:
  assumes "main w cfg [] = (out, tr)"
  obtains
    (checkout_raised) e where
      "out = Inl (Uncaught e)"
      "tr = ran (checkout_cmd cfg) (Inl e)"
  | (checkout_failed) p where
      "returncode p \<noteq> 0"
      "out = Inl (SystemExit (returncode p))"
      "tr = ran (checkout_cmd cfg) (Inr p) @ diagnostics p"
  | (pull_raised) p1 e where
      "returncode p1 = 0"
      "out = Inl (Uncaught e)"
      "tr = ran (checkout_cmd cfg) (Inr p1) @ ran pull_cmd (Inl e)"
  | (pull_failed) p1 p where
      "returncode p1 = 0"
      "returncode p \<noteq> 0"
      "out = Inl (SystemExit (returncode p))"
      "tr = ran (checkout_cmd cfg) (Inr p1) @ ran pull_cmd (Inr p) @ diagnostics p"
  | (ls_files_raised) p1 p2 e where
      "returncode p1 = 0"
      "returncode p2 = 0"
      "out = Inl (Uncaught e)"
      "tr = ran (checkout_cmd cfg) (Inr p1) @ ran pull_cmd (Inr p2) @
              ran ls_files_cmd (Inl e)"
  | (ls_files_failed) p1 p2 p where
      "returncode p1 = 0"
      "returncode p2 = 0"
      "returncode p \<noteq> 0"
      "out = Inl (SystemExit (returncode p))"
      "tr = ran (checkout_cmd cfg) (Inr p1) @ ran pull_cmd (Inr p2) @
              ran ls_files_cmd (Inr p) @ diagnostics p"
  | (request_raised) p1 p2 p3 e where
      "returncode p1 = 0"
      "returncode p2 = 0"
      "returncode p3 = 0"
      "out = Inl (Uncaught e)"
      "tr = head_trace w cfg p1 p2 p3 @ [request w cfg p1 p2 p3 (Inl e)]"
  | (no_diff) p1 p2 p3 body where
      "returncode p1 = 0"
      "returncode p2 = 0"
      "returncode p3 = 0"
      "\<not> is_diff (strip body)"
      "out = Inr ()"
      "tr = head_trace w cfg p1 p2 p3 @
              [request w cfg p1 p2 p3 (Inr body), Print (str ''Model did not return a unified diff; exiting without changes.''), Print (slice_to 2000 (strip body))]"
  | (branch_raised) p1 p2 p3 body e where
      "returncode p1 = 0"
      "returncode p2 = 0"
      "returncode p3 = 0"
      "is_diff (strip body)"
      "out = Inl (Uncaught e)"
      "tr = head_trace w cfg p1 p2 p3 @ [request w cfg p1 p2 p3 (Inr body)] @
              ran (branch_cmd cfg) (Inl e)"
  | (branch_failed) p1 p2 p3 body p where
      "returncode p1 = 0"
      "returncode p2 = 0"
      "returncode p3 = 0"
      "is_diff (strip body)"
      "returncode p \<noteq> 0"
      "out = Inl (SystemExit (returncode p))"
      "tr = head_trace w cfg p1 p2 p3 @ [request w cfg p1 p2 p3 (Inr body)] @
              ran (branch_cmd cfg) (Inr p) @ diagnostics p"
  | (write_raised) p1 p2 p3 body p4 e where
      "returncode p1 = 0"
      "returncode p2 = 0"
      "returncode p3 = 0"
      "is_diff (strip body)"
      "returncode p4 = 0"
      "out = Inl (Uncaught e)"
      "tr = head_trace w cfg p1 p2 p3 @ [request w cfg p1 p2 p3 (Inr body)] @
              ran (branch_cmd cfg) (Inr p4) @ [WriteText patch_file (strip body) (Some e)]"
  | (apply_raised) p1 p2 p3 body p4 e where
      "returncode p1 = 0"
      "returncode p2 = 0"
      "returncode p3 = 0"
      "is_diff (strip body)"
      "returncode p4 = 0"
      "out = Inl (Uncaught e)"
      "tr = head_trace w cfg p1 p2 p3 @ [request w cfg p1 p2 p3 (Inr body)] @
              ran (branch_cmd cfg) (Inr p4) @ [WriteText patch_file (strip body) None] @
              ran apply_cmd (Inl e)"
  | (apply_failed) p1 p2 p3 body p4 p where
      "returncode p1 = 0"
      "returncode p2 = 0"
      "returncode p3 = 0"
      "is_diff (strip body)"
      "returncode p4 = 0"
      "returncode p \<noteq> 0"
      "out = Inl (SystemExit (returncode p))"
      "tr = head_trace w cfg p1 p2 p3 @ [request w cfg p1 p2 p3 (Inr body)] @
              ran (branch_cmd cfg) (Inr p4) @ [WriteText patch_file (strip body) None] @
              ran apply_cmd (Inr p) @ diagnostics p"
  | (status_raised) p1 p2 p3 body p4 p5 e where
      "returncode p1 = 0"
      "returncode p2 = 0"
      "returncode p3 = 0"
      "is_diff (strip body)"
      "returncode p4 = 0"
      "returncode p5 = 0"
      "out = Inl (Uncaught e)"
      "tr = patched w cfg p1 p2 p3 body p4 p5 @ ran status_cmd (Inl e)"
  | (no_changes) p1 p2 p3 body p4 p5 p6 where
      "returncode p1 = 0"
      "returncode p2 = 0"
      "returncode p3 = 0"
      "is_diff (strip body)"
      "returncode p4 = 0"
      "returncode p5 = 0"
      "strip (stdout p6) = []"
      "out = Inr ()"
      "tr = patched w cfg p1 p2 p3 body p4 p5 @ ran status_cmd (Inr p6) @
              [Print (str ''No changes to commit.'')]"
  | (commit_raised) p1 p2 p3 body p4 p5 p6 e where
      "returncode p1 = 0"
      "returncode p2 = 0"
      "returncode p3 = 0"
      "is_diff (strip body)"
      "returncode p4 = 0"
      "returncode p5 = 0"
      "strip (stdout p6) \<noteq> []"
      "out = Inl (Uncaught e)"
      "tr = patched w cfg p1 p2 p3 body p4 p5 @ ran status_cmd (Inr p6) @
              ran commit_cmd (Inl e)"
  | (commit_failed) p1 p2 p3 body p4 p5 p6 p where
      "returncode p1 = 0"
      "returncode p2 = 0"
      "returncode p3 = 0"
      "is_diff (strip body)"
      "returncode p4 = 0"
      "returncode p5 = 0"
      "strip (stdout p6) \<noteq> []"
      "returncode p \<noteq> 0"
      "out = Inl (SystemExit (returncode p))"
      "tr = patched w cfg p1 p2 p3 body p4 p5 @ ran status_cmd (Inr p6) @
              ran commit_cmd (Inr p) @ diagnostics p"
  | (push_raised) p1 p2 p3 body p4 p5 p6 p7 e where
      "returncode p1 = 0"
      "returncode p2 = 0"
      "returncode p3 = 0"
      "is_diff (strip body)"
      "returncode p4 = 0"
      "returncode p5 = 0"
      "strip (stdout p6) \<noteq> []"
      "returncode p7 = 0"
      "out = Inl (Uncaught e)"
      "tr = patched w cfg p1 p2 p3 body p4 p5 @ ran status_cmd (Inr p6) @
              ran commit_cmd (Inr p7) @ ran (push_cmd cfg) (Inl e)"
  | (push_failed) p1 p2 p3 body p4 p5 p6 p7 p where
      "returncode p1 = 0"
      "returncode p2 = 0"
      "returncode p3 = 0"
      "is_diff (strip body)"
      "returncode p4 = 0"
      "returncode p5 = 0"
      "strip (stdout p6) \<noteq> []"
      "returncode p7 = 0"
      "returncode p \<noteq> 0"
      "out = Inl (SystemExit (returncode p))"
      "tr = patched w cfg p1 p2 p3 body p4 p5 @ ran status_cmd (Inr p6) @
              ran commit_cmd (Inr p7) @ ran (push_cmd cfg) (Inr p) @ diagnostics p"
  | (pushed) p1 p2 p3 body p4 p5 p6 p7 p8 where
      "returncode p1 = 0"
      "returncode p2 = 0"
      "returncode p3 = 0"
      "is_diff (strip body)"
      "returncode p4 = 0"
      "returncode p5 = 0"
      "strip (stdout p6) \<noteq> []"
      "returncode p7 = 0"
      "returncode p8 = 0"
      "out = Inr ()"
      "tr = patched w cfg p1 p2 p3 body p4 p5 @ ran status_cmd (Inr p6) @
              ran commit_cmd (Inr p7) @ ran (push_cmd cfg) (Inr p8) @
              [Print (str ''Branch pushed; PR step will create/update the pull request.'')]"
proof -
  note k0 = assms[unfolded main_def git_def case_prod_beta]
  from k0 show ?thesis
  proof (cases rule: run_step)
    case (raised e)
    from raised have o: "out = Inl (Uncaught e)"
      and t: "tr = ran (checkout_cmd cfg) (Inl e)"
      by (simp_all add: run_defs)
    from o t show ?thesis by (rule that(1))
  next
    case (failed p)
    then have n: "returncode p \<noteq> 0" by simp
    from failed have o: "out = Inl (SystemExit (returncode p))"
      and t: "tr = ran (checkout_cmd cfg) (Inr p) @ diagnostics p"
      by (simp_all add: run_defs)
    from n o t show ?thesis by (rule that(2))
  next
    case (ok p1)
    note k1 = ok(2)
    from ok(1) have r1: "returncode p1 = 0" by simp
    from k1 show ?thesis
    proof (cases rule: run_step)
      case (raised e)
      from raised have o: "out = Inl (Uncaught e)"
        and t: "tr = ran (checkout_cmd cfg) (Inr p1) @ ran pull_cmd (Inl e)"
        by (simp_all add: run_defs)
      from r1 o t show ?thesis by (rule that(3))
    next
      case (failed p)
      then have n: "returncode p \<noteq> 0" by simp
      from failed have o: "out = Inl (SystemExit (returncode p))"
        and t: "tr = ran (checkout_cmd cfg) (Inr p1) @ ran pull_cmd (Inr p) @ diagnostics p"
        by (simp_all add: run_defs)
      from r1 n o t show ?thesis by (rule that(4))
    next
      case (ok p2)
      note k2 = ok(2)
      from ok(1) have r2: "returncode p2 = 0" by simp
      from k2 show ?thesis
      proof (cases rule: list_files_step)
        case (raised e)
        from raised have o: "out = Inl (Uncaught e)"
          and t: "tr = ran (checkout_cmd cfg) (Inr p1) @ ran pull_cmd (Inr p2) @
                      ran ls_files_cmd (Inl e)"
          by (simp_all add: run_defs)
        from r1 r2 o t show ?thesis by (rule that(5))
      next
        case (failed p)
        from failed have o: "out = Inl (SystemExit (returncode p))"
          and t: "tr = ran (checkout_cmd cfg) (Inr p1) @ ran pull_cmd (Inr p2) @
                      ran ls_files_cmd (Inr p) @ diagnostics p"
          by (simp_all add: run_defs)
        from r1 r2 failed(1) o t show ?thesis by (rule that(6))
      next
        case (ok p3)
        note r3 = ok(1)
        note k3 = ok(2)
        from k3 show ?thesis
        proof (cases rule: repo_map_step)
          case go
          from go show ?thesis
          proof (cases rule: call_openai_step)
            case (raised e)
            from raised have o: "out = Inl (Uncaught e)"
              and t: "tr = head_trace w cfg p1 p2 p3 @ [request w cfg p1 p2 p3 (Inl e)]"
              by (simp_all add: run_defs)
            from r1 r2 r3 o t show ?thesis by (rule that(7))
          next
            case (ok body)
            from ok show ?thesis
            proof (cases rule: if_step)
              case yes
              from yes(1) have nd: "\<not> is_diff (strip body)" by (simp add: is_diff_def)
              from yes(2) show ?thesis
              proof (cases rule: print_step)
                case go
                from go have o: "out = Inr ()"
                  and t: "tr = head_trace w cfg p1 p2 p3 @
                              [request w cfg p1 p2 p3 (Inr body), Print (str ''Model did not return a unified diff; exiting without changes.''), Print (slice_to 2000 (strip body))]"
                  by (simp_all add: run_defs)
                from r1 r2 r3 nd o t show ?thesis by (rule that(8))
              qed
            next
              case no
              from no(1) have d: "is_diff (strip body)" by (simp add: is_diff_def)
              note j4 = no(2)
              from j4 show ?thesis
              proof (cases rule: run_step)
                case (raised e)
                from raised have o: "out = Inl (Uncaught e)"
                  and t: "tr = head_trace w cfg p1 p2 p3 @ [request w cfg p1 p2 p3 (Inr body)] @
                              ran (branch_cmd cfg) (Inl e)"
                  by (simp_all add: run_defs)
                from r1 r2 r3 d o t show ?thesis by (rule that(9))
              next
                case (failed p)
                then have n: "returncode p \<noteq> 0" by simp
                from failed have o: "out = Inl (SystemExit (returncode p))"
                  and t: "tr = head_trace w cfg p1 p2 p3 @ [request w cfg p1 p2 p3 (Inr body)] @
                              ran (branch_cmd cfg) (Inr p) @ diagnostics p"
                  by (simp_all add: run_defs)
                from r1 r2 r3 d n o t show ?thesis by (rule that(10))
              next
                case (ok p4)
                note k4 = ok(2)
                from ok(1) have r4: "returncode p4 = 0" by simp
                from k4 show ?thesis
                proof (cases rule: write_patch_step)
                  case (raised e)
                  from raised have o: "out = Inl (Uncaught e)"
                    and t: "tr = head_trace w cfg p1 p2 p3 @
                                [request w cfg p1 p2 p3 (Inr body)] @
                                ran (branch_cmd cfg) (Inr p4) @
                                [WriteText patch_file (strip body) (Some e)]"
                    by (simp_all add: run_defs)
                  from r1 r2 r3 d r4 o t show ?thesis by (rule that(11))
                next
                  case ok
                  from ok show ?thesis
                  proof (cases rule: run_step)
                    case (raised e)
                    from raised have o: "out = Inl (Uncaught e)"
                      and t: "tr = head_trace w cfg p1 p2 p3 @
                                  [request w cfg p1 p2 p3 (Inr body)] @
                                  ran (branch_cmd cfg) (Inr p4) @
                                  [WriteText patch_file (strip body) None] @
                                  ran apply_cmd (Inl e)"
                      by (simp_all add: run_defs)
                    from r1 r2 r3 d r4 o t show ?thesis by (rule that(12))
                  next
                    case (failed p)
                    then have n: "returncode p \<noteq> 0" by simp
                    from failed have o: "out = Inl (SystemExit (returncode p))"
                      and t: "tr = head_trace w cfg p1 p2 p3 @
                                  [request w cfg p1 p2 p3 (Inr body)] @
                                  ran (branch_cmd cfg) (Inr p4) @
                                  [WriteText patch_file (strip body) None] @
                                  ran apply_cmd (Inr p) @ diagnostics p"
                      by (simp_all add: run_defs)
                    from r1 r2 r3 d r4 n o t show ?thesis by (rule that(13))
                  next
                    case (ok p5)
                    note k5 = ok(2)
                    from ok(1) have r5: "returncode p5 = 0" by simp
                    from k5 show ?thesis
                    proof (cases rule: run_step)
                      case (raised e)
                      from raised have o: "out = Inl (Uncaught e)"
                        and t: "tr = patched w cfg p1 p2 p3 body p4 p5 @ ran status_cmd (Inl e)"
                        by (simp_all add: run_defs)
                      from r1 r2 r3 d r4 r5 o t show ?thesis by (rule that(14))
                    next
                      case (failed p)
                      then show ?thesis by simp
                    next
                      case (ok p6)
                      note k6 = ok(2)
                      from k6 show ?thesis
                      proof (cases rule: if_step)
                        case yes
                        from yes have o: "out = Inr ()"
                          and t: "tr = patched w cfg p1 p2 p3 body p4 p5 @
                                      ran status_cmd (Inr p6) @
                                      [Print (str ''No changes to commit.'')]"
                          by (simp_all add: run_defs)
                        from r1 r2 r3 d r4 r5 yes(1) o t show ?thesis by (rule that(15))
                      next
                        case no
                        note s6 = no(1)
                        note j6 = no(2)
                        from j6 show ?thesis
                        proof (cases rule: run_step)
                          case (raised e)
                          from raised have o: "out = Inl (Uncaught e)"
                            and t: "tr = patched w cfg p1 p2 p3 body p4 p5 @
                                        ran status_cmd (Inr p6) @ ran commit_cmd (Inl e)"
                            by (simp_all add: run_defs)
                          from r1 r2 r3 d r4 r5 s6 o t show ?thesis by (rule that(16))
                        next
                          case (failed p)
                          then have n: "returncode p \<noteq> 0" by simp
                          from failed have o: "out = Inl (SystemExit (returncode p))"
                            and t: "tr = patched w cfg p1 p2 p3 body p4 p5 @
                                        ran status_cmd (Inr p6) @ ran commit_cmd (Inr p) @
                                        diagnostics p"
                            by (simp_all add: run_defs)
                          from r1 r2 r3 d r4 r5 s6 n o t show ?thesis by (rule that(17))
                        next
                          case (ok p7)
                          note k7 = ok(2)
                          from ok(1) have r7: "returncode p7 = 0" by simp
                          from k7 show ?thesis
                          proof (cases rule: run_step)
                            case (raised e)
                            from raised have o: "out = Inl (Uncaught e)"
                              and t: "tr = patched w cfg p1 p2 p3 body p4 p5 @
                                          ran status_cmd (Inr p6) @ ran commit_cmd (Inr p7) @
                                          ran (push_cmd cfg) (Inl e)"
                              by (simp_all add: run_defs)
                            from r1 r2 r3 d r4 r5 s6 r7 o t show ?thesis by (rule that(18))
                          next
                            case (failed p)
                            then have n: "returncode p \<noteq> 0" by simp
                            from failed have o: "out = Inl (SystemExit (returncode p))"
                              and t: "tr = patched w cfg p1 p2 p3 body p4 p5 @
                                          ran status_cmd (Inr p6) @ ran commit_cmd (Inr p7) @
                                          ran (push_cmd cfg) (Inr p) @ diagnostics p"
                              by (simp_all add: run_defs)
                            from r1 r2 r3 d r4 r5 s6 r7 n o t show ?thesis by (rule that(19))
                          next
                            case (ok p8)
                            note k8 = ok(2)
                            from ok(1) have r8: "returncode p8 = 0" by simp
                            from k8 have o: "out = Inr ()"
                              and t: "tr = patched w cfg p1 p2 p3 body p4 p5 @
                                          ran status_cmd (Inr p6) @ ran commit_cmd (Inr p7) @
                                          ran (push_cmd cfg) (Inr p8) @
                                          [Print (str ''Branch pushed; PR step will create/update the pull request.'')]"
                              by (simp_all add: run_defs)
                            from r1 r2 r3 d r4 r5 s6 r7 r8 o t show ?thesis by (rule that(20))
                          qed
                        qed
                      qed
                    qed
                  qed
                qed
              qed
            qed
          qed
        qed
      qed
    qed
  qed
qed

lemma read_events_only_reads:
  "e \<in> set (read_events w tr fps) \<Longrightarrow> \<exists>p r. e = ReadText p r"
  by (auto simp: read_events_def in_set_zip)

lemma not_in_read_events [simp]:
  "Request a b c d x \<notin> set (read_events w tr fps)"
  "Subprocess cmd r \<notin> set (read_events w tr fps)"
  "Print s \<notin> set (read_events w tr fps)"
  "PrintErr s \<notin> set (read_events w tr fps)"
  "WriteText p t q \<notin> set (read_events w tr fps)"
  using read_events_only_reads by blast+

lemma commands_simps [simp]:
  "commands [] = []"
  "commands (Subprocess cmd r # tr) = cmd # commands tr"
  "commands (Print s # tr) = commands tr"
  "commands (PrintErr s # tr) = commands tr"
  "commands (ReadText p x # tr) = commands tr"
  "commands (WriteText p t y # tr) = commands tr"
  "commands (Request a b c d e # tr) = commands tr"
  "commands (tr @ tr') = commands tr @ commands tr'"
  by (simp_all add: commands_def)

lemma commands_read_events [simp]: "commands (read_events w tr fps) = []"
  by (induction fps arbitrary: tr) (simp_all add: read_events_def)

lemma no_write_read_events [simp]: "\<not> list_ex is_write (read_events w tr fps)"
  by (induction fps arbitrary: tr) (simp_all add: read_events_def)

lemma commands_ran [simp]: "commands (ran c r) = [c]" "commands (diagnostics p) = []"
  by (simp_all add: ran_def diagnostics_def)

lemma head_trace_facts [simp]:
  "commands (head_trace w cfg p1 p2 p3) = [checkout_cmd cfg, pull_cmd, ls_files_cmd]"
  "\<not> list_ex is_write (head_trace w cfg p1 p2 p3)"
  "Request k m s u x \<notin> set (head_trace w cfg p1 p2 p3)"
  "Subprocess c r \<in> set (head_trace w cfg p1 p2 p3) \<longleftrightarrow>
     (c = checkout_cmd cfg \<and> r = Inr p1) \<or> (c = pull_cmd \<and> r = Inr p2) \<or>
     (c = ls_files_cmd \<and> r = Inr p3)"
  by (auto simp: head_trace_def synced_def ran_def)

lemma cmd_neq [simp]:
  "status_cmd \<noteq> commit_cmd"
  "commit_cmd \<noteq> status_cmd"
  "status_cmd \<noteq> push_cmd cfg"
  "push_cmd cfg \<noteq> status_cmd"
  "status_cmd \<noteq> checkout_cmd cfg"
  "checkout_cmd cfg \<noteq> status_cmd"
  "status_cmd \<noteq> pull_cmd"
  "pull_cmd \<noteq> status_cmd"
  "status_cmd \<noteq> ls_files_cmd"
  "ls_files_cmd \<noteq> status_cmd"
  "status_cmd \<noteq> branch_cmd cfg"
  "branch_cmd cfg \<noteq> status_cmd"
  "status_cmd \<noteq> apply_cmd"
  "apply_cmd \<noteq> status_cmd"
  "commit_cmd \<noteq> push_cmd cfg"
  "push_cmd cfg \<noteq> commit_cmd"
  "commit_cmd \<noteq> checkout_cmd cfg"
  "checkout_cmd cfg \<noteq> commit_cmd"
  "commit_cmd \<noteq> pull_cmd"
  "pull_cmd \<noteq> commit_cmd"
  "commit_cmd \<noteq> ls_files_cmd"
  "ls_files_cmd \<noteq> commit_cmd"
  "commit_cmd \<noteq> branch_cmd cfg"
  "branch_cmd cfg \<noteq> commit_cmd"
  "commit_cmd \<noteq> apply_cmd"
  "apply_cmd \<noteq> commit_cmd"
  "push_cmd cfg \<noteq> checkout_cmd cfg"
  "checkout_cmd cfg \<noteq> push_cmd cfg"
  "push_cmd cfg \<noteq> pull_cmd"
  "pull_cmd \<noteq> push_cmd cfg"
  "push_cmd cfg \<noteq> ls_files_cmd"
  "ls_files_cmd \<noteq> push_cmd cfg"
  "push_cmd cfg \<noteq> branch_cmd cfg"
  "branch_cmd cfg \<noteq> push_cmd cfg"
  "push_cmd cfg \<noteq> apply_cmd"
  "apply_cmd \<noteq> push_cmd cfg"
  by (simp_all add: checkout_cmd_def pull_cmd_def ls_files_cmd_def branch_cmd_def apply_cmd_def
      status_cmd_def commit_cmd_def push_cmd_def commit_args_def patch_file_def str_def)

lemmas trace_defs = ran_def diagnostics_def patched_def request_def is_diff_def slice_to_def

subsection \<open>Running the examples\<close>

lemma and_then_run:
  "and_then (run w cmd check) f tr =
     (case subprocess_run w (tr @ [Print (str ''$ '' @ cmd)]) cmd of
        Inl e \<Rightarrow> (Inl (Uncaught e), tr @ [Print (str ''$ '' @ cmd), Subprocess cmd (Inl e)])
      | Inr p \<Rightarrow>
          if check \<and> returncode p \<noteq> 0
          then (Inl (SystemExit (returncode p)),
                tr @ [Print (str ''$ '' @ cmd), Subprocess cmd (Inr p), Print (stdout p), PrintErr (stderr p)])
          else f (strip (stdout p)) (tr @ [Print (str ''$ '' @ cmd), Subprocess cmd (Inr p)]))"
  by (simp add: and_then_def run_eq split: sum.splits)

lemma and_then_print: "and_then (print s) f tr = f () (tr @ [Print s])"
  by (simp add: and_then_def print_def)

lemma and_then_call_openai:
  "and_then (call_openai w cfg s u) f tr =
     (case responses_create w tr (OPENAI_API_KEY cfg) (OPENAI_MODEL cfg) s u of
        Inl e \<Rightarrow> (Inl (Uncaught e), tr @ [Request (OPENAI_API_KEY cfg) (OPENAI_MODEL cfg) s u (Inl e)])
      | Inr body \<Rightarrow> f (strip body) (tr @ [Request (OPENAI_API_KEY cfg) (OPENAI_MODEL cfg) s u (Inr body)]))"
  by (simp add: and_then_def call_openai_def Let_def split: sum.splits)

lemma and_then_write_patch:
  "and_then (write_patch w path body) f tr =
     (case write_text w tr path body of
        Some e \<Rightarrow> (Inl (Uncaught e), tr @ [WriteText path body (Some e)])
      | None \<Rightarrow> f () (tr @ [WriteText path body None]))"
  by (simp add: and_then_def write_patch_def Let_def split: option.splits)

lemma and_then_repo_map:
  "and_then (repo_map w files cap maxf) f tr =
     f (snapshot w cap tr (slice_to maxf files)) (tr @ read_events w tr (slice_to maxf files))"
  by (simp add: and_then_def repo_map_eq)

lemmas exec =
  git_def and_then_run and_then_list_files and_then_print and_then_call_openai
  and_then_write_patch and_then_repo_map print_def case_prod_beta

lemmas eval_defs =
  demo_world_def demo_config_def quiet_def str_def strip_def lstrip_def rstrip_def isspace_def
  splitlines_def slice_to_def snapshot_def read_events_def startswith_def quote_def safe_char_def
  commit_cmd_def status_cmd_def commit_args_def patch_file_def checkout_cmd_def pull_cmd_def
  ls_files_cmd_def branch_cmd_def apply_cmd_def push_cmd_def

lemma refusing_out: "fst (main refusing_world demo_config []) = Inr ()"
  by (simp add: main_def refusing_world_def exec eval_defs)

lemma refusing_request:
  "Request (str ''key'') (str ''gpt-5-codex'') (fst (build_prompts [])) (snd (build_prompts []))
     (Inr (str ''I cannot help with that.'')) \<in> set (snd (main refusing_world demo_config []))"
  by (simp add: main_def refusing_world_def exec eval_defs)

lemma refusing_reply:
  "strip (str ''I cannot help with that.'') = str ''I cannot help with that.''"
  "\<not> startswith (str ''I cannot help with that.'') (str ''diff --git'')"
  "\<not> startswith (str ''I cannot help with that.'') (str ''--- '')"
  by (simp_all add: str_def strip_def lstrip_def rstrip_def isspace_def startswith_def)

lemma unchanged_status:
  "Subprocess status_cmd (Inr quiet) \<in> set (snd (main unchanged_world demo_config []))"
  by (simp add: main_def unchanged_world_def exec eval_defs)

lemma changed_status:
  "Subprocess status_cmd (Inr \<lparr>returncode = 0, stdout = str ''M a.py'', stderr = []\<rparr>)
     \<in> set (snd (main changed_world demo_config []))"
  by (simp add: main_def changed_world_def exec eval_defs)

lemma changed_commit:
  "Subprocess commit_cmd (Inr quiet) \<in> set (snd (main changed_world demo_config []))"
  by (simp add: main_def changed_world_def exec eval_defs)

lemma changed_reply: "strip (str ''M a.py'') = str ''M a.py''" "str ''M a.py'' \<noteq> []"
  by (simp_all add: str_def strip_def lstrip_def rstrip_def isspace_def)

lemma failing_commit_out: "fst (main failing_commit_world demo_config []) = Inl (SystemExit 1)"
  by (simp add: main_def failing_commit_world_def exec eval_defs)

lemma failing_commit_commands:
  "commands (snd (main failing_commit_world demo_config [])) =
     [checkout_cmd demo_config, pull_cmd, ls_files_cmd, branch_cmd demo_config, apply_cmd,
      status_cmd, commit_cmd]"
  by (simp add: main_def failing_commit_world_def exec eval_defs)

lemma failing_commit_status:
  "Subprocess status_cmd (Inr \<lparr>returncode = 0, stdout = str ''M a.py'', stderr = []\<rparr>)
     \<in> set (snd (main failing_commit_world demo_config []))"
  by (simp add: main_def failing_commit_world_def exec eval_defs)

lemma failing_commit_commit:
  "Subprocess commit_cmd (Inr \<lparr>returncode = 1, stdout = [], stderr = str ''rejected''\<rparr>)
     \<in> set (snd (main failing_commit_world demo_config []))"
  by (simp add: main_def failing_commit_world_def exec eval_defs)

lemma status_fails_status:
  "Subprocess status_cmd (Inr \<lparr>returncode = 128, stdout = [], stderr = str ''fatal''\<rparr>)
     \<in> set (snd (main status_fails_world demo_config []))"
  by (simp add: main_def status_fails_world_def exec eval_defs)

lemma refusing_length: "length (str ''I cannot help with that.'') \<le> 2000"
  by (simp add: str_def)

lemma quiet_facts: "returncode quiet = 0" "strip (stdout quiet) = []"
  by (simp_all add: quiet_def strip_def lstrip_def rstrip_def)

lemma stripped_listing:
  "fst (list_files
         (demo_world (\<lambda>cmd. \<lparr>returncode = 0, stdout = str ''LICENSE'' @ [10] @ str ''z.md '' @ [10], stderr = []\<rparr>)
            (\<lambda>path. Inl OSError) []) []) = Inr [str ''z.md'']"
  "split_on 10 (str ''LICENSE'' @ [10] @ str ''z.md '' @ [10]) = [str ''LICENSE'', str ''z.md '', []]"
  "\<not> should_include_file (str ''z.md '')"
  by (simp_all add: list_files_def git_def and_then_def run_eq demo_world_def incl_ext_def
      path_suffix_def path_name_def path_parts_def
      split_on_def rfind_def lower_def lower_cp_def startswith_def str_def Let_def
      strip_def lstrip_def rstrip_def isspace_def splitlines_def linebreak_def
      should_include_file_def)

lemma indented_listing:
  "fst (list_files
         (demo_world (\<lambda>cmd. \<lparr>returncode = 0, stdout = str '' a.py'' @ [10] @ str ''b.py'' @ [10], stderr = []\<rparr>)
            (\<lambda>path. Inl OSError) []) []) = Inr [str ''a.py'', str ''b.py'']"
  "split_on 10 (str '' a.py'' @ [10] @ str ''b.py'' @ [10]) = [str '' a.py'', str ''b.py'', []]"
  "should_include_file (str '' a.py'')"
  by (simp_all add: list_files_def git_def and_then_def run_eq demo_world_def incl_ext_def
      path_suffix_def path_name_def path_parts_def
      split_on_def rfind_def lower_def lower_cp_def startswith_def str_def Let_def
      strip_def lstrip_def rstrip_def isspace_def splitlines_def linebreak_def
      should_include_file_def)

lemma split_listing:
  "fst (list_files
         (demo_world (\<lambda>cmd. \<lparr>returncode = 0, stdout = str ''a'' @ [8232] @ str ''b.py'' @ [10], stderr = []\<rparr>)
            (\<lambda>path. Inl OSError) []) []) = Inr [str ''b.py'']"
  "split_on 10 (str ''a'' @ [8232] @ str ''b.py'' @ [10]) = [str ''a'' @ [8232] @ str ''b.py'', []]"
  "should_include_file (str ''a'' @ [8232] @ str ''b.py'')"
  by (simp_all add: list_files_def git_def and_then_def run_eq demo_world_def incl_ext_def
      path_suffix_def path_name_def path_parts_def
      split_on_def rfind_def lower_def lower_cp_def startswith_def str_def Let_def
      strip_def lstrip_def rstrip_def isspace_def splitlines_def linebreak_def
      should_include_file_def)

lemma hostile_commands:
  "commands (snd (main changed_world hostile_config [])) =
     [str ''git checkout master'', str ''git pull --ff-only'', str ''git ls-files'',
      str ''git checkout -b '' @ [39] @ str ''x; rm -rf ~'' @ [39],
      str ''git apply --index --whitespace=fix .codex.patch'',
      str ''git status --porcelain'',
      str ''git commit -m '' @ [34] @ str ''Nightly automated refactor (Codex)'' @ [34],
      str ''git push -u origin '' @ [39] @ str ''x; rm -rf ~'' @ [39]]"
  by (simp add: main_def changed_world_def hostile_config_def exec eval_defs quote_char_def)

lemma hostile_branch: "CHANGE_BRANCH hostile_config = str ''x; rm -rf ~''"
  by (simp add: hostile_config_def)

lemma hostile_quote: "quote (CHANGE_BRANCH hostile_config) = [39] @ str ''x; rm -rf ~'' @ [39]"
  by (simp add: hostile_config_def quote_def quote_char_def safe_char_def str_def)

section \<open>Claims\<close>

text \<open>
  \<^bold>\<open>C1.\<close>  When the model has answered \<open>r\<close> and \<open>r\<close>, stripped, starts with neither
  \<^verbatim>\<open>diff --git\<close> nor \<^verbatim>\<open>--- \<close>, the run ends normally (exit status 0); the only commands
  of the whole run are the three of the initial sync (so no branch is made, no patch
  applied, nothing committed and nothing pushed); no file is written; and the last two
  lines printed are the notice and the first 2000 characters of the stripped answer.
\<close>

theorem non_diff_response_is_a_noop:
  assumes "Request key model sys usr (Inr r) \<in> set (snd (main w cfg []))"
      and "\<not> startswith (strip r) (str ''diff --git'')"
      and "\<not> startswith (strip r) (str ''--- '')"
  shows "fst (main w cfg []) = Inr () \<and>
         exit_status (fst (main w cfg [])) = 0 \<and>
         commands (snd (main w cfg [])) = [checkout_cmd cfg, pull_cmd, ls_files_cmd] \<and>
         \<not> list_ex is_write (snd (main w cfg [])) \<and>
         last (snd (main w cfg [])) = Print (take 2000 (strip r)) \<and>
         last (butlast (snd (main w cfg []))) =
           Print (str ''Model did not return a unified diff; exiting without changes.'')"
proof -
  obtain out tr where m: "main w cfg [] = (out, tr)" by fastforce
  with assms(1) have req: "Request key model sys usr (Inr r) \<in> set tr" by simp
  from m req assms(2) assms(3) have
    "out = Inr () \<and> commands tr = [checkout_cmd cfg, pull_cmd, ls_files_cmd] \<and>
     \<not> list_ex is_write tr \<and> last tr = Print (take 2000 (strip r)) \<and>
     last (butlast tr) = Print (str ''Model did not return a unified diff; exiting without changes.'')"
    by (cases rule: main_cases) (auto simp: trace_defs butlast_append)
  with m show ?thesis by simp
qed

theorem non_diff_response_is_a_noop_witness:
  "Request (str ''key'') (str ''gpt-5-codex'') (fst (build_prompts [])) (snd (build_prompts []))
     (Inr (str ''I cannot help with that.'')) \<in> set (snd (main refusing_world demo_config [])) \<and>
   \<not> startswith (strip (str ''I cannot help with that.'')) (str ''diff --git'') \<and>
   \<not> startswith (strip (str ''I cannot help with that.'')) (str ''--- '') \<and>
   fst (main refusing_world demo_config []) = Inr () \<and>
   commands (snd (main refusing_world demo_config [])) =
     [checkout_cmd demo_config, pull_cmd, ls_files_cmd] \<and>
   \<not> list_ex is_write (snd (main refusing_world demo_config [])) \<and>
   last (snd (main refusing_world demo_config [])) = Print (str ''I cannot help with that.'')"
  using non_diff_response_is_a_noop [OF refusing_request]
  by (simp add: refusing_reply refusing_request refusing_length)

text \<open>
  \<^bold>\<open>C2.\<close>  Once the status command has answered (it is run only after the patch has been
  applied): if its stripped output is empty, the run ends normally with
  \<^verbatim>\<open>No changes to commit.\<close>, and neither the commit command nor the push command is
  among the commands of the run; if it is not empty, the commit command with the fixed
  message is run, and the push command for the change branch is run if the commit
  command has exited with status 0.
\<close>

theorem commit_and_push_after_status:
  assumes "Subprocess status_cmd (Inr p) \<in> set (snd (main w cfg []))"
  shows "(strip (stdout p) = [] \<longrightarrow>
            fst (main w cfg []) = Inr () \<and>
            exit_status (fst (main w cfg [])) = 0 \<and>
            commit_cmd \<notin> set (commands (snd (main w cfg []))) \<and>
            push_cmd cfg \<notin> set (commands (snd (main w cfg []))) \<and>
            last (snd (main w cfg [])) = Print (str ''No changes to commit.'')) \<and>
         (strip (stdout p) \<noteq> [] \<longrightarrow>
            commit_cmd \<in> set (commands (snd (main w cfg []))) \<and>
            (Subprocess commit_cmd (Inr q) \<in> set (snd (main w cfg [])) \<and> returncode q = 0 \<longrightarrow>
               push_cmd cfg \<in> set (commands (snd (main w cfg [])))))"
proof -
  obtain out tr where m: "main w cfg [] = (out, tr)" by fastforce
  with assms have st: "Subprocess status_cmd (Inr p) \<in> set tr" by simp
  from m st have
    "(strip (stdout p) = [] \<longrightarrow>
        out = Inr () \<and> commit_cmd \<notin> set (commands tr) \<and> push_cmd cfg \<notin> set (commands tr) \<and>
        last tr = Print (str ''No changes to commit.'')) \<and>
     (strip (stdout p) \<noteq> [] \<longrightarrow>
        commit_cmd \<in> set (commands tr) \<and>
        (Subprocess commit_cmd (Inr q) \<in> set tr \<and> returncode q = 0 \<longrightarrow>
           push_cmd cfg \<in> set (commands tr)))"
    by (cases rule: main_cases) (auto simp: trace_defs)
  with m show ?thesis by auto
qed

theorem commit_and_push_after_status_witness:
  "Subprocess status_cmd (Inr quiet) \<in> set (snd (main unchanged_world demo_config [])) \<and>
   strip (stdout quiet) = [] \<and>
   fst (main unchanged_world demo_config []) = Inr () \<and>
   commit_cmd \<notin> set (commands (snd (main unchanged_world demo_config []))) \<and>
   push_cmd demo_config \<notin> set (commands (snd (main unchanged_world demo_config []))) \<and>
   Subprocess status_cmd (Inr \<lparr>returncode = 0, stdout = str ''M a.py'', stderr = []\<rparr>)
     \<in> set (snd (main changed_world demo_config [])) \<and>
   strip (str ''M a.py'') \<noteq> [] \<and>
   Subprocess commit_cmd (Inr quiet) \<in> set (snd (main changed_world demo_config [])) \<and>
   returncode quiet = 0 \<and>
   commit_cmd \<in> set (commands (snd (main changed_world demo_config []))) \<and>
   push_cmd demo_config \<in> set (commands (snd (main changed_world demo_config [])))"
  using commit_and_push_after_status [OF unchanged_status, where q = quiet]
    commit_and_push_after_status [OF changed_status, where q = quiet]
  by (simp add: unchanged_status changed_status changed_commit changed_reply quiet_facts)

text \<open>
  The claim as it is written fails where the commit command is run and fails: the status
  shows a change, and nothing is pushed.
\<close>

theorem commit_failure_counterexample:
  "Subprocess status_cmd (Inr \<lparr>returncode = 0, stdout = str ''M a.py'', stderr = []\<rparr>)
     \<in> set (snd (main failing_commit_world demo_config [])) \<and>
   strip (str ''M a.py'') \<noteq> [] \<and>
   commit_cmd \<in> set (commands (snd (main failing_commit_world demo_config []))) \<and>
   push_cmd demo_config \<notin> set (commands (snd (main failing_commit_world demo_config []))) \<and>
   fst (main failing_commit_world demo_config []) = Inl (SystemExit 1)"
  by (simp add: failing_commit_status failing_commit_commands failing_commit_out changed_reply)

text \<open>
  \<^bold>\<open>C3.\<close>  For every command and every result of the subprocess: with \<open>check\<close> true and a
  return code other than 0, \<open>run\<close> prints the command, prints the captured output,
  prints the captured error output to the error stream and leaves by \<^verbatim>\<open>sys.exit\<close> with
  that return code, so that the exit status of the process is the return code modulo 256:
  the return code itself when it lies between 1 and 255.  In every other case \<open>run\<close>
  returns the captured output, stripped of surrounding whitespace, whatever the return
  code.
\<close>

theorem run_checked_failure_exits:
  assumes "subprocess_run w (tr @ [Print (str ''$ '' @ cmd)]) cmd = Inr p"
  shows "run w cmd check tr =
           (if check \<and> returncode p \<noteq> 0
            then (Inl (SystemExit (returncode p)),
                  tr @ [Print (str ''$ '' @ cmd), Subprocess cmd (Inr p),
                        Print (stdout p), PrintErr (stderr p)])
            else (Inr (strip (stdout p)),
                  tr @ [Print (str ''$ '' @ cmd), Subprocess cmd (Inr p)])) \<and>
         (check \<and> returncode p \<noteq> 0 \<longrightarrow>
            exit_status (fst (run w cmd check tr)) = returncode p mod 256 \<and>
            (0 < returncode p \<and> returncode p < 256 \<longrightarrow>
               exit_status (fst (run w cmd check tr)) = returncode p))"
  using assms by (simp add: run_eq)

theorem run_checked_failure_exits_witness:
  "run (demo_world (\<lambda>cmd. \<lparr>returncode = 2, stdout = str '' out '', stderr = str ''err''\<rparr>)
          (\<lambda>path. Inl OSError) []) (str ''false'') True [] =
     (Inl (SystemExit 2),
      [Print (str ''$ false''),
       Subprocess (str ''false'') (Inr \<lparr>returncode = 2, stdout = str '' out '', stderr = str ''err''\<rparr>),
       Print (str '' out ''), PrintErr (str ''err'')]) \<and>
   exit_status (fst (run (demo_world (\<lambda>cmd. \<lparr>returncode = 2, stdout = str '' out '', stderr = str ''err''\<rparr>)
          (\<lambda>path. Inl OSError) []) (str ''false'') True [])) = 2 \<and>
   run (demo_world (\<lambda>cmd. \<lparr>returncode = 2, stdout = str '' out '', stderr = str ''err''\<rparr>)
          (\<lambda>path. Inl OSError) []) (str ''false'') False [] =
     (Inr (str ''out''),
      [Print (str ''$ false''),
       Subprocess (str ''false'') (Inr \<lparr>returncode = 2, stdout = str '' out '', stderr = str ''err''\<rparr>)])"
  using
    run_checked_failure_exits [of
      "demo_world (\<lambda>cmd. \<lparr>returncode = 2, stdout = str '' out '', stderr = str ''err''\<rparr>) (\<lambda>path. Inl OSError) []"
      "[]" "str ''false''" "\<lparr>returncode = 2, stdout = str '' out '', stderr = str ''err''\<rparr>" True]
    run_checked_failure_exits [of
      "demo_world (\<lambda>cmd. \<lparr>returncode = 2, stdout = str '' out '', stderr = str ''err''\<rparr>) (\<lambda>path. Inl OSError) []"
      "[]" "str ''false''" "\<lparr>returncode = 2, stdout = str '' out '', stderr = str ''err''\<rparr>" False]
  by (simp add: demo_world_def str_def strip_def lstrip_def rstrip_def isspace_def)

text \<open>
  The exit status is not the return code when the shell was killed by a signal: the
  return code is negative then, and no exit status is.
\<close>

theorem killed_shell_counterexample:
  "run (demo_world (\<lambda>cmd. \<lparr>returncode = - 9, stdout = [], stderr = []\<rparr>) (\<lambda>path. Inl OSError) [])
       (str ''kill -9 $$'') True [] =
     (Inl (SystemExit (- 9)),
      [Print (str ''$ kill -9 $$''),
       Subprocess (str ''kill -9 $$'') (Inr \<lparr>returncode = - 9, stdout = [], stderr = []\<rparr>),
       Print [], PrintErr []]) \<and>
   exit_status (fst (run (demo_world (\<lambda>cmd. \<lparr>returncode = - 9, stdout = [], stderr = []\<rparr>)
       (\<lambda>path. Inl OSError) []) (str ''kill -9 $$'') True [])) = 247 \<and>
   exit_status (fst (run (demo_world (\<lambda>cmd. \<lparr>returncode = - 9, stdout = [], stderr = []\<rparr>)
       (\<lambda>path. Inl OSError) []) (str ''kill -9 $$'') True [])) \<noteq>
     returncode \<lparr>returncode = - 9, stdout = [], stderr = []\<rparr>"
  by (simp add: run_eq demo_world_def str_def)

text \<open>
  \<^bold>\<open>C4.\<close>  A path is selected exactly when the lowercased suffix of its name is in the
  allow-list and none of \<^verbatim>\<open>node_modules/\<close>, \<^verbatim>\<open>.git/\<close>, \<^verbatim>\<open>vendor/\<close> occurs in it; the
  allow-list has 22 members; and for a listing of paths, each followed by a line feed,
  in which no path holds a line boundary, the first path does not begin with whitespace
  and the last does not end with it, \<open>list_files\<close> returns the selected paths in the order
  of the listing.
\<close>

theorem should_include_file_iff:
  "(should_include_file path \<longleftrightarrow>
      lower (path_suffix path) \<in> set incl_ext \<and>
      \<not> sublist (str ''node_modules/'') path \<and>
      \<not> sublist (str ''.git/'') path \<and>
      \<not> sublist (str ''vendor/'') path) \<and>
   card (set incl_ext) = 22 \<and>
   (subprocess_run w (tr @ [Print (str ''$ '' @ str ''git '' @ str ''ls-files'')])
        (str ''git '' @ str ''ls-files'') = Inr p \<and> returncode p = 0 \<and>
    stdout p = concat (map (\<lambda>f. f @ [10]) paths) \<and>
    (\<forall>f\<in>set paths. \<not> list_ex linebreak f) \<and>
    (paths \<noteq> [] \<longrightarrow> hd paths \<noteq> [] \<and> \<not> isspace (hd (hd paths)) \<and>
       last paths \<noteq> [] \<and> \<not> isspace (last (last paths))) \<longrightarrow>
      fst (list_files w tr) = Inr (filter should_include_file paths) \<and>
      subseq (filter should_include_file paths) paths)"
proof -
  have "fst (list_files w tr) = Inr (filter should_include_file paths)"
    if "subprocess_run w (tr @ [Print (str ''$ '' @ str ''git '' @ str ''ls-files'')])
          (str ''git '' @ str ''ls-files'') = Inr p" "returncode p = 0"
      "stdout p = concat (map (\<lambda>f. f @ [10]) paths)"
      "\<forall>f\<in>set paths. \<not> list_ex linebreak f"
      "paths \<noteq> [] \<longrightarrow> hd paths \<noteq> [] \<and> \<not> isspace (hd (hd paths)) \<and>
         last paths \<noteq> [] \<and> \<not> isspace (last (last paths))"
    using list_files_eq[OF that(1,2)] splitlines_listing[OF that(3,4,5)] by simp
  then show ?thesis
    by (simp add: should_include_file_def contains_sublist incl_ext_card)
qed

theorem should_include_file_iff_witness:
  "should_include_file (str ''src/App.TSX'') \<and>
   \<not> should_include_file (str ''node_modules/x/index.js'') \<and>
   \<not> should_include_file (str ''.py'') \<and>
   stdout \<lparr>returncode = 0, stdout = str ''b.py'' @ [10] @ str ''LICENSE'' @ [10] @ str ''a.md'' @ [10], stderr = []\<rparr> =
     concat (map (\<lambda>f. f @ [10]) [str ''b.py'', str ''LICENSE'', str ''a.md'']) \<and>
   fst (list_files
         (demo_world (\<lambda>cmd. \<lparr>returncode = 0, stdout = str ''b.py'' @ [10] @ str ''LICENSE'' @ [10] @ str ''a.md'' @ [10], stderr = []\<rparr>)
            (\<lambda>path. Inl OSError) []) []) =
     Inr [str ''b.py'', str ''a.md'']"
  using
    should_include_file_iff [where path = "str ''src/App.TSX''"
      and w = "demo_world (\<lambda>cmd. \<lparr>returncode = 0, stdout = str ''b.py'' @ [10] @ str ''LICENSE'' @ [10] @ str ''a.md'' @ [10], stderr = []\<rparr>) (\<lambda>path. Inl OSError) []"
      and tr = "[]"
      and p = "\<lparr>returncode = 0, stdout = str ''b.py'' @ [10] @ str ''LICENSE'' @ [10] @ str ''a.md'' @ [10], stderr = []\<rparr>"
      and paths = "[str ''b.py'', str ''LICENSE'', str ''a.md'']"]
    should_include_file_iff [where path = "str ''node_modules/x/index.js''" and paths = "[]"]
    should_include_file_iff [where path = "str ''.py''" and paths = "[]"]
  by (simp add: demo_world_def incl_ext_def path_suffix_def path_name_def path_parts_def
      split_on_def rfind_def lower_def lower_cp_def startswith_def str_def Let_def
      isspace_def linebreak_def should_include_file_def)

text \<open>
  The claim as it is written fails in two places.  No set of 21 extensions describes the
  selection: 22 different suffixes are accepted.  And what is returned need not be an
  entry of the listing cut at line feeds: the whole listing is stripped, so a last path
  \<^verbatim>\<open>z.md\<close> followed by a blank, which is not selected, is read as \<^verbatim>\<open>z.md\<close>, and a first
  path that begins with a blank loses it; and a path holding the line separator U+2028 is
  read as two lines.
\<close>

theorem file_selector_counterexample:
  "\<not> (\<exists>exts. card exts = 21 \<and>
        (\<forall>path. should_include_file path \<longleftrightarrow>
           lower (path_suffix path) \<in> exts \<and>
           \<not> sublist (str ''node_modules/'') path \<and>
           \<not> sublist (str ''.git/'') path \<and>
           \<not> sublist (str ''vendor/'') path)) \<and>
   fst (list_files
         (demo_world (\<lambda>cmd. \<lparr>returncode = 0, stdout = str ''LICENSE'' @ [10] @ str ''z.md '' @ [10], stderr = []\<rparr>)
            (\<lambda>path. Inl OSError) []) []) = Inr [str ''z.md''] \<and>
   split_on 10 (str ''LICENSE'' @ [10] @ str ''z.md '' @ [10]) = [str ''LICENSE'', str ''z.md '', []] \<and>
   \<not> should_include_file (str ''z.md '') \<and>
   fst (list_files
         (demo_world (\<lambda>cmd. \<lparr>returncode = 0, stdout = str '' a.py'' @ [10] @ str ''b.py'' @ [10], stderr = []\<rparr>)
            (\<lambda>path. Inl OSError) []) []) = Inr [str ''a.py'', str ''b.py''] \<and>
   split_on 10 (str '' a.py'' @ [10] @ str ''b.py'' @ [10]) = [str '' a.py'', str ''b.py'', []] \<and>
   should_include_file (str '' a.py'') \<and>
   fst (list_files
         (demo_world (\<lambda>cmd. \<lparr>returncode = 0, stdout = str ''a'' @ [8232] @ str ''b.py'' @ [10], stderr = []\<rparr>)
            (\<lambda>path. Inl OSError) []) []) = Inr [str ''b.py''] \<and>
   split_on 10 (str ''a'' @ [8232] @ str ''b.py'' @ [10]) = [str ''a'' @ [8232] @ str ''b.py'', []] \<and>
   should_include_file (str ''a'' @ [8232] @ str ''b.py'')"
  using no_set_of_twenty_one stripped_listing indented_listing split_listing by blast

text \<open>
  \<^bold>\<open>C5.\<close>  For a cap and a maximum count that are not negative, the snapshot is the join of
  excerpts of files among the first \<open>max_files\<close> entries, in order and at most \<open>max_files\<close>
  of them; each excerpt is the delimiter line with the path followed by at most
  \<open>max_per_file_chars\<close> characters.
\<close>

theorem repo_map_bounded:
  assumes "0 \<le> cap" and "0 \<le> maxf"
  shows "\<exists>included contents.
           fst (repo_map w files cap maxf tr) =
             Inr (join [10, 10]
                   (map2 (\<lambda>fp c. str ''--- '' @ fp @ str '' ---'' @ [10] @ c) included contents)) \<and>
           length contents = length included \<and>
           subseq included (take (nat maxf) files) \<and>
           int (length included) \<le> maxf \<and>
           list_all (\<lambda>c. int (length c) \<le> cap) contents"
proof -
  from loop_bounded[OF assms(1), of w "slice_to maxf files" "[]" tr]
  obtain inc cs where
    1: "fst (repo_map_loop w cap (slice_to maxf files) [] tr) =
          Inr ([] @ map2 (\<lambda>fp c. str ''--- '' @ fp @ str '' ---'' @ [10] @ c) inc cs)"
    and 2: "length cs = length inc" and 3: "subseq inc (slice_to maxf files)"
    and 4: "list_all (\<lambda>c. int (length c) \<le> cap) cs"
    by blast
  have s: "slice_to maxf files = take (nat maxf) files"
    using assms(2) by (simp add: slice_to_def)
  from 3 s have "subseq inc (take (nat maxf) files)" by simp
  then have "length inc \<le> length (take (nat maxf) files)" by (rule list_emb_length)
  then have "length inc \<le> nat maxf" by simp
  with le_nat_iff[OF assms(2), of "length inc"] have 5: "int (length inc) \<le> maxf" by simp
  have "fst (repo_map w files cap maxf tr) =
          Inr (join [10, 10] (map2 (\<lambda>fp c. str ''--- '' @ fp @ str '' ---'' @ [10] @ c) inc cs))"
    using 1 by (simp add: repo_map_def and_then_def repo_map_loop_eq)
  with 2 3 4 5 s show ?thesis by auto
qed

theorem repo_map_bounded_witness:
  "(0::int) \<le> 5 \<and> (0::int) \<le> 2 \<and>
   fst (repo_map (demo_world (\<lambda>cmd. \<lparr>returncode = 0, stdout = [], stderr = []\<rparr>)
        (\<lambda>path. if path = str ''bad.py'' then Inl OSError else Inr (str ''hello world'')) [])
         [str ''a.py'', str ''bad.py'', str ''c.py''] 5 2 []) =
     Inr (str ''--- a.py ---'' @ [10] @ str ''hello'')"
  using repo_map_bounded [of 5 2 "(demo_world (\<lambda>cmd. \<lparr>returncode = 0, stdout = [], stderr = []\<rparr>)
        (\<lambda>path. if path = str ''bad.py'' then Inl OSError else Inr (str ''hello world'')) [])"
      "[str ''a.py'', str ''bad.py'', str ''c.py'']" "[]"]
  by (simp add: repo_map_def and_then_def demo_world_def slice_to_def str_def)

text \<open>
  For a negative cap or count the claim fails, as a Python slice with a negative bound
  counts from the end: with the cap \<open>-1\<close> four of the five characters of a file are
  taken, and with the count \<open>-1\<close> two of three files.
\<close>

theorem negative_bounds_counterexample:
  "fst (repo_map (demo_world (\<lambda>cmd. quiet) (\<lambda>path. Inr (str ''hello'')) [])
         [str ''a.py''] (- 1) 150 []) =
     Inr (str ''--- a.py ---'' @ [10] @ str ''hell'') \<and>
   \<not> int (length (str ''hell'')) \<le> - 1 \<and>
   repo_map (demo_world (\<lambda>cmd. quiet) (\<lambda>path. Inr (str ''hello'')) [])
         [str ''a.py'', str ''b.py'', str ''c.py''] 4000 (- 1) [] =
     (Inr (str ''--- a.py ---'' @ [10] @ str ''hello'' @ [10, 10] @
           str ''--- b.py ---'' @ [10] @ str ''hello''),
      [ReadText (str ''a.py'') (Inr (str ''hello'')), ReadText (str ''b.py'') (Inr (str ''hello''))]) \<and>
   \<not> int (length [str ''a.py'', str ''b.py'']) \<le> - 1"
  by (simp add: repo_map_def and_then_def demo_world_def slice_to_def str_def)

text \<open>
  \<^bold>\<open>C7.\<close>  Every one of the first \<open>max_files\<close> files is read, in order, whatever the earlier
  reads did; a file whose read raised adds nothing to the snapshot, a file that was read
  adds its whole excerpt; and \<open>repo_map\<close> always returns.
\<close>

theorem repo_map_skips_unreadable:
  "repo_map w files cap maxf tr =
     (Inr (join [10, 10] (concat (map2 (excerpt cap) (slice_to maxf files)
             (read_results w tr (slice_to maxf files))))),
      tr @ map2 ReadText (slice_to maxf files) (read_results w tr (slice_to maxf files))) \<and>
   length (read_results w tr (slice_to maxf files)) = length (slice_to maxf files) \<and>
   excerpt cap fp (Inl e) = [] \<and>
   excerpt cap fp (Inr body) = [str ''--- '' @ fp @ str '' ---'' @ [10] @ slice_to cap body]"
  by (simp add: repo_map_eq snapshot_def read_events_def length_read_results excerpt_def)

theorem repo_map_skips_unreadable_witness:
  "repo_map (demo_world (\<lambda>cmd. \<lparr>returncode = 0, stdout = [], stderr = []\<rparr>)
        (\<lambda>path. if path = str ''bad.py'' then Inl OSError else Inr (str ''hello world'')) [])
     [str ''a.py'', str ''bad.py'', str ''c.py''] 4000 150 [] =
     (Inr (str ''--- a.py ---'' @ [10] @ str ''hello world'' @ [10, 10] @
           str ''--- c.py ---'' @ [10] @ str ''hello world''),
      [ReadText (str ''a.py'') (Inr (str ''hello world'')),
       ReadText (str ''bad.py'') (Inl OSError),
       ReadText (str ''c.py'') (Inr (str ''hello world''))])"
  using repo_map_skips_unreadable [of "(demo_world (\<lambda>cmd. \<lparr>returncode = 0, stdout = [], stderr = []\<rparr>)
        (\<lambda>path. if path = str ''bad.py'' then Inl OSError else Inr (str ''hello world'')) [])"
      "[str ''a.py'', str ''bad.py'', str ''c.py'']" 4000 150 "[]"]
  by (simp add: demo_world_def slice_to_def str_def excerpt_def)

text \<open>
  \<^bold>\<open>C6.\<close>  Without \<^verbatim>\<open>OPENAI_API_KEY\<close> in the environment the process ends with an uncaught
  \<^verbatim>\<open>KeyError\<close> and an empty trace: no subprocess, no read, no write, no request.  With it,
  the configuration is built, each of the other three variables falling back to its
  default.
\<close>

theorem missing_api_key_is_fatal:
  "(environ w (str ''OPENAI_API_KEY'') = None \<longrightarrow>
      script w = (Inl (Uncaught (KeyError (str ''OPENAI_API_KEY''))), []) \<and>
      exit_status (fst (script w)) = 1) \<and>
   (environ w (str ''OPENAI_API_KEY'') = Some key \<longrightarrow>
      startup w =
        Inr \<lparr>BASE_BRANCH = (case environ w (str ''BASE_BRANCH'') of None \<Rightarrow> str ''master'' | Some b \<Rightarrow> b),
             CHANGE_BRANCH = (case environ w (str ''CHANGE_BRANCH'') of
                                None \<Rightarrow> str ''codex/refactor-'' @ utcnow w | Some c \<Rightarrow> c),
             OPENAI_MODEL = (case environ w (str ''OPENAI_MODEL'') of None \<Rightarrow> str ''gpt-5-codex'' | Some m \<Rightarrow> m),
             OPENAI_API_KEY = key\<rparr>)"
  by (simp add: script_def startup_def getenv_def)

theorem missing_api_key_is_fatal_witness:
  "script ((demo_world (\<lambda>cmd. \<lparr>returncode = 0, stdout = [], stderr = []\<rparr>)
        (\<lambda>path. if path = str ''bad.py'' then Inl OSError else Inr (str ''hello world'')) [])\<lparr>environ := Map.empty\<rparr>) =
     (Inl (Uncaught (KeyError (str ''OPENAI_API_KEY''))), []) \<and>
   startup (demo_world (\<lambda>cmd. \<lparr>returncode = 0, stdout = [], stderr = []\<rparr>)
        (\<lambda>path. if path = str ''bad.py'' then Inl OSError else Inr (str ''hello world'')) []) = Inr demo_config"
  using
    missing_api_key_is_fatal [of "(demo_world (\<lambda>cmd. \<lparr>returncode = 0, stdout = [], stderr = []\<rparr>)
        (\<lambda>path. if path = str ''bad.py'' then Inl OSError else Inr (str ''hello world'')) [])\<lparr>environ := Map.empty\<rparr>" "str ''key''"]
    missing_api_key_is_fatal [of "(demo_world (\<lambda>cmd. \<lparr>returncode = 0, stdout = [], stderr = []\<rparr>)
        (\<lambda>path. if path = str ''bad.py'' then Inl OSError else Inr (str ''hello world'')) [])" "str ''key''"]
  by (simp add: demo_world_def demo_config_def str_def)

text \<open>
  \<^bold>\<open>C8.\<close>  Equal snapshots give equal prompt pairs; the system instruction is the stripped
  template whatever the snapshot is, and the user instruction is a fixed text followed by
  the snapshot.
\<close>

theorem build_prompts_deterministic:
  assumes "summary1 = summary2"
  shows "build_prompts summary1 = build_prompts summary2 \<and>
         fst (build_prompts summary1) = strip system \<and>
         snd (build_prompts summary1) = snd (build_prompts []) @ summary1"
  using assms by (simp add: build_prompts_def)

theorem build_prompts_deterministic_witness:
  "str ''x'' = str ''x'' \<and>
   build_prompts (str ''x'') = build_prompts (str ''x'') \<and>
   fst (build_prompts (str ''x'')) = strip system \<and>
   snd (build_prompts (str ''x'')) = snd (build_prompts []) @ str ''x''"
  using build_prompts_deterministic [of "str ''x''" "str ''x''"]
  by simp

text \<open>
  \<^bold>\<open>C9.\<close>  Whatever the two branch names are, the commands a run of \<open>main\<close> hands to the
  shell are, in this order, the first ones (at least the first) of: the checkout of the
  base branch, the pull, the listing, the creation of the change branch, the application
  of the patch, the status, the commit and the push of the change branch.  The three
  commands with a branch name are built from \<open>quote\<close> of it; the shell reads each command
  of the run as one simple \<^verbatim>\<open>git\<close> command of literal words, and the branch name is
  exactly one of these words: the last.
\<close>

theorem branch_is_one_argument:
  "commands (snd (main w cfg [])) \<noteq> [] \<and>
   prefix (commands (snd (main w cfg [])))
     [checkout_cmd cfg, pull_cmd, ls_files_cmd, branch_cmd cfg, apply_cmd, status_cmd,
      commit_cmd, push_cmd cfg] \<and>
   checkout_cmd cfg = str ''git checkout '' @ quote (BASE_BRANCH cfg) \<and>
   branch_cmd cfg = str ''git checkout -b '' @ quote (CHANGE_BRANCH cfg) \<and>
   push_cmd cfg = str ''git push -u origin '' @ quote (CHANGE_BRANCH cfg) \<and>
   sh_argv (checkout_cmd cfg) = Some [str ''git'', str ''checkout'', BASE_BRANCH cfg] \<and>
   sh_argv (branch_cmd cfg) = Some [str ''git'', str ''checkout'', str ''-b'', CHANGE_BRANCH cfg] \<and>
   sh_argv (push_cmd cfg) =
     Some [str ''git'', str ''push'', str ''-u'', str ''origin'', CHANGE_BRANCH cfg] \<and>
   (\<forall>c\<in>set (commands (snd (main w cfg []))). \<exists>ws. sh_argv c = Some (str ''git'' # ws))"
proof -
  let ?all = "[checkout_cmd cfg, pull_cmd, ls_files_cmd, branch_cmd cfg, apply_cmd, status_cmd,
      commit_cmd, push_cmd cfg]"
  obtain out tr where m: "main w cfg [] = (out, tr)" by fastforce
  then have p: "commands tr \<noteq> [] \<and> prefix (commands tr) ?all"
    by (cases rule: main_cases) (simp_all add: patched_def request_def)
  then have "set (commands tr) \<subseteq> set ?all" by (intro set_mono_prefix) simp
  moreover have "\<forall>c\<in>set ?all. \<exists>ws. sh_argv c = Some (str ''git'' # ws)"
    by (simp add: sh_argv_cmds)
  ultimately have "\<forall>c\<in>set (commands tr). \<exists>ws. sh_argv c = Some (str ''git'' # ws)"
    by blast
  moreover have "checkout_cmd cfg = str ''git checkout '' @ quote (BASE_BRANCH cfg)"
    "branch_cmd cfg = str ''git checkout -b '' @ quote (CHANGE_BRANCH cfg)"
    "push_cmd cfg = str ''git push -u origin '' @ quote (CHANGE_BRANCH cfg)"
    by (simp_all add: checkout_cmd_def branch_cmd_def push_cmd_def str_def)
  moreover from m have "snd (main w cfg []) = tr" by simp
  ultimately show ?thesis using p sh_argv_cmds(1,4,8)[of cfg] by blast
qed

theorem branch_is_one_argument_witness:
  "commands (snd (main changed_world hostile_config [])) =
     [str ''git checkout master'', str ''git pull --ff-only'', str ''git ls-files'',
      str ''git checkout -b '' @ [39] @ str ''x; rm -rf ~'' @ [39],
      str ''git apply --index --whitespace=fix .codex.patch'',
      str ''git status --porcelain'',
      str ''git commit -m '' @ [34] @ str ''Nightly automated refactor (Codex)'' @ [34],
      str ''git push -u origin '' @ [39] @ str ''x; rm -rf ~'' @ [39]] \<and>
   CHANGE_BRANCH hostile_config = str ''x; rm -rf ~'' \<and>
   push_cmd hostile_config = str ''git push -u origin '' @ quote (CHANGE_BRANCH hostile_config) \<and>
   quote (CHANGE_BRANCH hostile_config) = [39] @ str ''x; rm -rf ~'' @ [39] \<and>
   sh_argv (push_cmd hostile_config) =
     Some [str ''git'', str ''push'', str ''-u'', str ''origin'', CHANGE_BRANCH hostile_config]"
  using branch_is_one_argument [of changed_world hostile_config]
    hostile_commands hostile_branch hostile_quote
  by blast

text \<open>
  \<^bold>\<open>C10.\<close>  If the status command exits with a status other than 0 and prints nothing, the
  run still ends normally (exit status 0) with \<^verbatim>\<open>No changes to commit.\<close>; if any other
  command of the run exits with a status other than 0, the run ends by \<^verbatim>\<open>sys.exit\<close> with
  that return code (the exit status of the process is the return code modulo 256).
\<close>

theorem status_failure_is_tolerated:
  "(Subprocess status_cmd (Inr p) \<in> set (snd (main w cfg [])) \<and> returncode p \<noteq> 0 \<and>
      strip (stdout p) = [] \<longrightarrow>
      fst (main w cfg []) = Inr () \<and> exit_status (fst (main w cfg [])) = 0 \<and>
      last (snd (main w cfg [])) = Print (str ''No changes to commit.'')) \<and>
   (Subprocess c (Inr q) \<in> set (snd (main w cfg [])) \<and> returncode q \<noteq> 0 \<and> c \<noteq> status_cmd \<longrightarrow>
      fst (main w cfg []) = Inl (SystemExit (returncode q)) \<and>
      exit_status (fst (main w cfg [])) = returncode q mod 256)"
proof -
  obtain out tr where m: "main w cfg [] = (out, tr)" by fastforce
  from m have
    "(Subprocess status_cmd (Inr p) \<in> set tr \<and> returncode p \<noteq> 0 \<and> strip (stdout p) = [] \<longrightarrow>
        out = Inr () \<and> last tr = Print (str ''No changes to commit.'')) \<and>
     (Subprocess c (Inr q) \<in> set tr \<and> returncode q \<noteq> 0 \<and> c \<noteq> status_cmd \<longrightarrow>
        out = Inl (SystemExit (returncode q)))"
    by (cases rule: main_cases) (auto simp: trace_defs)
  with m show ?thesis by auto
qed

theorem status_failure_is_tolerated_witness:
  "Subprocess status_cmd (Inr \<lparr>returncode = 128, stdout = [], stderr = str ''fatal''\<rparr>)
     \<in> set (snd (main status_fails_world demo_config [])) \<and>
   fst (main status_fails_world demo_config []) = Inr () \<and>
   last (snd (main status_fails_world demo_config [])) = Print (str ''No changes to commit.'') \<and>
   Subprocess commit_cmd (Inr \<lparr>returncode = 1, stdout = [], stderr = str ''rejected''\<rparr>)
     \<in> set (snd (main failing_commit_world demo_config [])) \<and>
   commit_cmd \<noteq> status_cmd \<and>
   fst (main failing_commit_world demo_config []) = Inl (SystemExit 1) \<and>
   exit_status (fst (main failing_commit_world demo_config [])) = 1"
  using
    status_failure_is_tolerated [where w = status_fails_world and cfg = demo_config
      and p = "\<lparr>returncode = 128, stdout = [], stderr = str ''fatal''\<rparr>"
      and c = status_cmd and q = quiet]
    status_failure_is_tolerated [where w = failing_commit_world and cfg = demo_config
      and p = quiet and c = commit_cmd
      and q = "\<lparr>returncode = 1, stdout = [], stderr = str ''rejected''\<rparr>"]
  by (simp add: status_fails_status failing_commit_commit strip_def lstrip_def rstrip_def)

end
